theory Spec2Isabelle
  imports Complex_Main "HOL-Library.Word"
begin

unbundle bit_operations_syntax

section \<open>Configuration constants of \<^verbatim>\<open>gemini_live.py\<close>\<close>

definition CHUNK_SIZE :: nat where "CHUNK_SIZE = 1024"
definition SCREEN_FPS :: int where "SCREEN_FPS = 2"
definition SCREEN_FPS_MIN :: int where "SCREEN_FPS_MIN = 1"
definition SCREEN_SEND_ONLY_DURING_TURN :: bool where "SCREEN_SEND_ONLY_DURING_TURN = True"
definition SEND_SILENCE_AFTER_PTT_MS :: int where "SEND_SILENCE_AFTER_PTT_MS = 500"
definition AUDIO_QUEUE_MAX_SIZE :: nat where "AUDIO_QUEUE_MAX_SIZE = 5"
definition SCREEN_QUEUE_SIZE :: nat where "SCREEN_QUEUE_SIZE = 1"
definition AUDIO_MAX_BACKLOG_MS :: real where "AUDIO_MAX_BACKLOG_MS = 200"
definition SCREEN_MAX_AGE_MS :: real where "SCREEN_MAX_AGE_MS = 500"
definition STALL_TIMEOUT_S :: real where "STALL_TIMEOUT_S = 15"
definition LATENCY_WINDOW_SIZE :: nat where "LATENCY_WINDOW_SIZE = 50"

section \<open>Data model\<close>

text \<open>
  Byte strings are lists of octets. Readings of \<^verbatim>\<open>time.time()\<close> and the millisecond
  ages derived from them are Python floats; they are modelled as reals, so rounding of
  the floating-point arithmetic is outside the model.
\<close>

type_synonym bytes = "8 word list"

record TimestampedData =
  data :: bytes
  timestamp :: real

text \<open>The property \<^verbatim>\<open>age_ms\<close>; its argument \<open>now\<close> is the value of \<^verbatim>\<open>time.time()\<close> at the call.\<close>

definition age_ms :: "real \<Rightarrow> TimestampedData \<Rightarrow> real" where
  "age_ms now td = (now - timestamp td) * 1000"

subsection \<open>\<^verbatim>\<open>asyncio.Queue\<close>\<close>

text \<open>
  A queue is the list of its items, next item to leave first. \<open>maxsize = 0\<close> is the
  unbounded queue. \<open>None\<close> stands for the exceptions \<^verbatim>\<open>QueueEmpty\<close> and \<^verbatim>\<open>QueueFull\<close>.
\<close>

definition queue_empty :: "'a list \<Rightarrow> bool" where
  "queue_empty q = (q = [])"

definition queue_full :: "nat \<Rightarrow> 'a list \<Rightarrow> bool" where
  "queue_full maxsize q = (if maxsize \<le> 0 then False else length q \<ge> maxsize)"

fun get_nowait :: "'a list \<Rightarrow> ('a \<times> 'a list) option" where
  "get_nowait [] = None"
| "get_nowait (x # q) = Some (x, q)"

definition put_nowait :: "nat \<Rightarrow> 'a \<Rightarrow> 'a list \<Rightarrow> 'a list option" where
  "put_nowait maxsize x q = (if queue_full maxsize q then None else Some (q @ [x]))"

subsection \<open>\<^verbatim>\<open>collections.deque(maxlen=...)\<close> and \<^verbatim>\<open>LatencyStats\<close>\<close>

definition deque_append :: "nat \<Rightarrow> 'a list \<Rightarrow> 'a \<Rightarrow> 'a list" where
  "deque_append maxlen d x = (let d' = d @ [x] in if length d' > maxlen then tl d' else d')"

record LatencyStats =
  audio_capture_to_send :: "real list"
  screen_capture_to_send :: "real list"
  model_response_latency :: "real list"

definition add_audio_latency :: "real \<Rightarrow> LatencyStats \<Rightarrow> LatencyStats" where
  "add_audio_latency ms st =
     st\<lparr>audio_capture_to_send := deque_append LATENCY_WINDOW_SIZE (audio_capture_to_send st) ms\<rparr>"

definition add_screen_latency :: "real \<Rightarrow> LatencyStats \<Rightarrow> LatencyStats" where
  "add_screen_latency ms st =
     st\<lparr>screen_capture_to_send := deque_append LATENCY_WINDOW_SIZE (screen_capture_to_send st) ms\<rparr>"

definition add_response_latency :: "real \<Rightarrow> LatencyStats \<Rightarrow> LatencyStats" where
  "add_response_latency ms st =
     st\<lparr>model_response_latency := deque_append LATENCY_WINDOW_SIZE (model_response_latency st) ms\<rparr>"

definition avg_screen_ms :: "LatencyStats \<Rightarrow> real" where
  "avg_screen_ms st =
     (if screen_capture_to_send st \<noteq> []
      then sum_list (screen_capture_to_send st) / real (length (screen_capture_to_send st))
      else 0)"

subsection \<open>What the transport session was asked to send\<close>

datatype realtime_input = Audio bytes | Media bytes

subsection \<open>\<^verbatim>\<open>GeminiLiveClient\<close>\<close>

text \<open>
  The fields of the client that the coordinator logic reads or writes. The two
  \<^verbatim>\<open>threading.Event\<close> objects \<^verbatim>\<open>_muted\<close> and \<^verbatim>\<open>_ptt_active\<close> and the \<^verbatim>\<open>asyncio.Event\<close>
  \<^verbatim>\<open>_turn_end_requested\<close> are booleans (set or clear). \<open>loop_running\<close> is the value of
  \<^verbatim>\<open>self._loop and self._loop.is_running()\<close>. \<open>session_sent\<close> records, in order, the
  arguments of the calls of \<^verbatim>\<open>session.send_realtime_input\<close>. \<open>audio_queue_out\<close> is the unbounded
  playback queue. \<^verbatim>\<open>_last_response_time\<close> is written and never read, and is left out.
\<close>

record client =
  push_to_talk_mode :: bool
  audio_queue_in :: "TimestampedData list"
  video_queue_in :: "TimestampedData list"
  running :: bool
  muted_flag :: bool
  ptt_active :: bool
  current_turn_id :: "string option"
  turn_end_requested :: bool
  last_turn_end_time :: real
  audio_chunks_sent_this_turn :: int
  silence_chunks_to_send :: int
  latency_stats :: LatencyStats
  current_screen_fps :: int
  audio_drop_count :: int
  screen_drop_count :: int
  loop_running :: bool
  session_sent :: "realtime_input list"
  audio_queue_out :: "bytes list"

text \<open>The state built by \<^verbatim>\<open>__init__\<close>.\<close>

definition init_client :: "bool \<Rightarrow> client" where
  "init_client ptt =
     \<lparr>push_to_talk_mode = ptt, audio_queue_in = [], video_queue_in = [], running = True,
      muted_flag = True, ptt_active = False, current_turn_id = None,
      turn_end_requested = False, last_turn_end_time = 0,
      audio_chunks_sent_this_turn = 0, silence_chunks_to_send = 0,
      latency_stats = \<lparr>audio_capture_to_send = [], screen_capture_to_send = [],
                        model_response_latency = []\<rparr>,
      current_screen_fps = SCREEN_FPS, audio_drop_count = 0, screen_drop_count = 0,
      loop_running = False, session_sent = [], audio_queue_out = []\<rparr>"

text \<open>The property \<^verbatim>\<open>muted\<close>.\<close>

definition muted :: "client \<Rightarrow> bool" where
  "muted s = (if push_to_talk_mode s then \<not> ptt_active s else muted_flag s)"

subsection \<open>Turn identifiers: \<^verbatim>\<open>str(uuid.uuid4())[:8]\<close>\<close>

text \<open>
  A UUID is a 128-bit integer. \<^verbatim>\<open>str\<close> prints it as 32 lower-case hexadecimal digits,
  most significant first, grouped 8-4-4-4-12 with hyphens.
\<close>

definition hex_digit :: "nat \<Rightarrow> char" where
  "hex_digit n = ''0123456789abcdef'' ! (n mod 16)"

definition hex32 :: "128 word \<Rightarrow> string" where
  "hex32 w = map (\<lambda>i. hex_digit (unat (drop_bit (4 * i) w AND 15))) (rev [0..<32])"

definition str_uuid :: "128 word \<Rightarrow> string" where
  "str_uuid w =
     (let h = hex32 w
      in take 8 h @ ''-'' @ take 4 (drop 8 h) @ ''-'' @ take 4 (drop 12 h) @ ''-''
         @ take 4 (drop 16 h) @ ''-'' @ drop 20 h)"

definition new_turn_id :: "128 word \<Rightarrow> string" where
  "new_turn_id u = take 8 (str_uuid u)"

text \<open>Truth value of an \<^verbatim>\<open>Optional[str]\<close>: neither \<^verbatim>\<open>None\<close> nor the empty string.\<close>

fun truthy :: "string option \<Rightarrow> bool" where
  "truthy None = False"
| "truthy (Some t) = (t \<noteq> [])"

section \<open>Turn lifecycle\<close>

text \<open>The loops of \<^verbatim>\<open>_clear_audio_queue\<close> and \<^verbatim>\<open>_clear_video_queue\<close>.\<close>

function clear_queue :: "'a list \<Rightarrow> 'a list" where
  "clear_queue q =
     (if \<not> queue_empty q
      then (case get_nowait q of None \<Rightarrow> q | Some (x, q') \<Rightarrow> clear_queue q')
      else q)"
  by pat_completeness auto
termination
  by (relation "measure length") (auto simp: queue_empty_def elim: get_nowait.elims)

definition clear_audio_queue :: "client \<Rightarrow> client" where
  "clear_audio_queue s = s\<lparr>audio_queue_in := clear_queue (audio_queue_in s)\<rparr>"

definition clear_video_queue :: "client \<Rightarrow> client" where
  "clear_video_queue s = s\<lparr>video_queue_in := clear_queue (video_queue_in s)\<rparr>"

text \<open>
  \<^verbatim>\<open>_request_turn_end\<close>: \<open>now\<close> is the reading of \<^verbatim>\<open>time.time()\<close>. The event is set through
  \<^verbatim>\<open>call_soon_threadsafe\<close>; the model sets it at once.
\<close>

definition request_turn_end :: "real \<Rightarrow> client \<Rightarrow> client" where
  "request_turn_end now s =
     (if loop_running s then s\<lparr>turn_end_requested := True, last_turn_end_time := now\<rparr> else s)"

text \<open>\<^verbatim>\<open>toggle_mute\<close>: \<open>u\<close> is the value of \<^verbatim>\<open>uuid.uuid4()\<close>, read only when unmuting.\<close>

definition toggle_mute :: "128 word \<Rightarrow> real \<Rightarrow> client \<Rightarrow> client" where
  "toggle_mute u now s =
     (let was_muted = muted_flag s in
      if was_muted then
        (let s1 = clear_audio_queue s;
             s2 = clear_video_queue s1
         in s2\<lparr>muted_flag := False,
                current_turn_id := Some (new_turn_id u),
                audio_chunks_sent_this_turn := 0\<rparr>)
      else
        (let s1 = s\<lparr>muted_flag := True\<rparr>;
             chunks_sent = audio_chunks_sent_this_turn s1
         in if truthy (current_turn_id s1) \<and> chunks_sent > 0 then
              (let silence_chunks = max 1 (SEND_SILENCE_AFTER_PTT_MS div 64)
               in request_turn_end now (s1\<lparr>silence_chunks_to_send := silence_chunks\<rparr>))
            else s1))"

text \<open>\<^verbatim>\<open>_on_ptt_press\<close> and \<^verbatim>\<open>_on_ptt_release\<close>.\<close>

definition on_ptt_press :: "128 word \<Rightarrow> client \<Rightarrow> client" where
  "on_ptt_press u s =
     (if ptt_active s then s
      else
        (let s1 = clear_audio_queue s;
             s2 = clear_video_queue s1
         in s2\<lparr>ptt_active := True,
                current_turn_id := Some (new_turn_id u),
                audio_chunks_sent_this_turn := 0\<rparr>))"

definition on_ptt_release :: "real \<Rightarrow> client \<Rightarrow> client" where
  "on_ptt_release now s =
     (if \<not> ptt_active s then s
      else
        (let s1 = s\<lparr>ptt_active := False\<rparr>
         in if truthy (current_turn_id s1) then
              (let chunks_sent = audio_chunks_sent_this_turn s1
               in if chunks_sent > 0 then
                    (let silence_chunks = max 1 (SEND_SILENCE_AFTER_PTT_MS div 64)
                     in request_turn_end now (s1\<lparr>silence_chunks_to_send := silence_chunks\<rparr>))
                  else s1)
            else s1))"

section \<open>Ingestion\<close>

text \<open>
  One iteration of the inner loop of \<^verbatim>\<open>listen_audio\<close>: \<open>d\<close> is what \<^verbatim>\<open>stream.read\<close>
  returned and \<open>now\<close> the clock reading that stamps the chunk. The test of \<^verbatim>\<open>muted\<close>
  is made when the read has returned.
\<close>

definition listen_audio_step :: "real \<Rightarrow> bytes \<Rightarrow> client \<Rightarrow> client" where
  "listen_audio_step now d s =
     (if d \<noteq> [] \<and> \<not> muted s then
        (let timestamped = \<lparr>data = d, timestamp = now\<rparr>;
             s1 = (if queue_full AUDIO_QUEUE_MAX_SIZE (audio_queue_in s) then
                     (case get_nowait (audio_queue_in s) of
                        Some (dropped, q') \<Rightarrow>
                          s\<lparr>audio_queue_in := q', audio_drop_count := audio_drop_count s + 1\<rparr>
                      | None \<Rightarrow> s)
                   else s)
         in case put_nowait AUDIO_QUEUE_MAX_SIZE timestamped (audio_queue_in s1) of
              Some q' \<Rightarrow> s1\<lparr>audio_queue_in := q'\<rparr>
            | None \<Rightarrow> s1\<lparr>audio_drop_count := audio_drop_count s1 + 1\<rparr>)
      else s)"

text \<open>
  One iteration of the loop of \<^verbatim>\<open>capture_screen\<close>, on the pair of the local variable
  \<^verbatim>\<open>frame_count\<close> and the client: \<open>img_bytes\<close> is the encoded frame and \<open>now\<close> the
  clock reading that stamps it. The pacing sleep at the end of the iteration has no
  effect on the state.
\<close>

definition capture_screen_step :: "real \<Rightarrow> bytes \<Rightarrow> int \<times> client \<Rightarrow> int \<times> client" where
  "capture_screen_step now img_bytes fs =
     (let frame_count = fst fs;
          s = snd fs;
          timestamped = \<lparr>data = img_bytes, timestamp = now\<rparr>;
          s1 = (if queue_full SCREEN_QUEUE_SIZE (video_queue_in s) then
                  (case get_nowait (video_queue_in s) of
                     Some (old_frame, q') \<Rightarrow>
                       s\<lparr>video_queue_in := q', screen_drop_count := screen_drop_count s + 1\<rparr>
                   | None \<Rightarrow> s)
                else s);
          s2 = (case put_nowait SCREEN_QUEUE_SIZE timestamped (video_queue_in s1) of
                  Some q' \<Rightarrow> s1\<lparr>video_queue_in := q'\<rparr>
                | None \<Rightarrow> s1\<lparr>screen_drop_count := screen_drop_count s1 + 1\<rparr>);
          frame_count' = frame_count + 1;
          s3 = (if frame_count' mod 30 = 0 then
                  (let avg_latency = avg_screen_ms (latency_stats s2)
                   in if avg_latency > SCREEN_MAX_AGE_MS * 0.8 then
                        s2\<lparr>current_screen_fps := max SCREEN_FPS_MIN (current_screen_fps s2 - 1)\<rparr>
                      else if avg_latency < SCREEN_MAX_AGE_MS * 0.3
                              \<and> current_screen_fps s2 < SCREEN_FPS then
                        s2\<lparr>current_screen_fps := min SCREEN_FPS (current_screen_fps s2 + 1)\<rparr>
                      else s2)
                else s2)
      in (frame_count', s3))"

section \<open>Egress\<close>

text \<open>
  The audio loop of \<^verbatim>\<open>send_to_api\<close>. \<open>clk i\<close> holds the two clock readings taken for
  the \<open>i\<close>-th chunk popped in this tick: the one compared with the backlog budget and the
  one recorded as send latency after the chunk was sent. The local counter
  \<^verbatim>\<open>audio_sent\<close> is never read and is left out.
\<close>

function audio_drain :: "(nat \<Rightarrow> real \<times> real) \<Rightarrow> nat \<Rightarrow> client \<Rightarrow> client" where
  "audio_drain clk i s =
     (if \<not> queue_empty (audio_queue_in s) then
        (case get_nowait (audio_queue_in s) of
           None \<Rightarrow> s
         | Some (timestamped, q') \<Rightarrow>
             (let s1 = s\<lparr>audio_queue_in := q'\<rparr>
              in if age_ms (fst (clk i)) timestamped > AUDIO_MAX_BACKLOG_MS then
                   audio_drain clk (i + 1) (s1\<lparr>audio_drop_count := audio_drop_count s1 + 1\<rparr>)
                 else
                   audio_drain clk (i + 1)
                     (s1\<lparr>session_sent := session_sent s1 @ [Audio (data timestamped)],
                         latency_stats :=
                           add_audio_latency (age_ms (snd (clk i)) timestamped) (latency_stats s1),
                         audio_chunks_sent_this_turn := audio_chunks_sent_this_turn s1 + 1\<rparr>)))
      else s)"
  by pat_completeness auto
termination
  by (relation "measure (\<lambda>(clk, i, s). length (audio_queue_in s))")
     (auto simp: queue_empty_def elim: get_nowait.elims)

text \<open>
  One iteration (tick) of the loop of \<^verbatim>\<open>send_to_api\<close>; \<open>vnow\<close> is the clock reading
  taken for \<^verbatim>\<open>frame_age\<close>. The statistics counter only drives logging and is left out.
\<close>

definition send_to_api_step :: "(nat \<Rightarrow> real \<times> real) \<Rightarrow> real \<Rightarrow> client \<Rightarrow> client" where
  "send_to_api_step clk vnow s =
     (let s1 = (if turn_end_requested s then s\<lparr>turn_end_requested := False\<rparr> else s);
          s2 = (if silence_chunks_to_send s1 > 0 then
                  s1\<lparr>session_sent := session_sent s1 @ [Audio (replicate (CHUNK_SIZE * 2) 0)],
                      silence_chunks_to_send := silence_chunks_to_send s1 - 1\<rparr>
                else s1);
          s3 = audio_drain clk 0 s2;
          should_send_screen = (if SCREEN_SEND_ONLY_DURING_TURN then \<not> muted s3 else True)
      in if \<not> queue_empty (video_queue_in s3) then
           (case get_nowait (video_queue_in s3) of
              None \<Rightarrow> s3
            | Some (timestamped, q') \<Rightarrow>
                (let s4 = s3\<lparr>video_queue_in := q'\<rparr>;
                     frame_age = age_ms vnow timestamped
                 in if \<not> should_send_screen then s4
                    else if frame_age > SCREEN_MAX_AGE_MS then
                      s4\<lparr>screen_drop_count := screen_drop_count s4 + 1\<rparr>
                    else
                      s4\<lparr>session_sent := session_sent s4 @ [Media (data timestamped)],
                          latency_stats := add_screen_latency frame_age (latency_stats s4)\<rparr>))
         else s3)"

section \<open>Ingress\<close>

text \<open>
  A response of the session, as far as \<^verbatim>\<open>receive_from_api\<close> looks at it: no server content,
  or server content with an optional model turn (a list of parts, each with optional
  inline data and optional text) and the turn-complete flag.
\<close>

record part =
  inline_data :: "bytes option"
  part_text :: "string option"

record server_content =
  model_turn :: "part list option"
  turn_complete :: bool

text \<open>The loop over the parts of a model turn: inline data goes to the playback queue.\<close>

fun route_parts :: "part list \<Rightarrow> client \<Rightarrow> client" where
  "route_parts [] s = s"
| "route_parts (p # ps) s =
     (case inline_data p of
        Some d \<Rightarrow> route_parts ps (s\<lparr>audio_queue_out := audio_queue_out s @ [d]\<rparr>)
      | None \<Rightarrow> route_parts ps s)"

text \<open>
  The body of the loop of \<^verbatim>\<open>receive_from_api\<close> for one response; \<open>now\<close> is the clock reading
  taken for the response latency.
\<close>

definition receive_from_api_step :: "real \<Rightarrow> server_content option \<Rightarrow> client \<Rightarrow> client" where
  "receive_from_api_step now response s =
     (case response of
        None \<Rightarrow> s
      | Some sc \<Rightarrow>
          (let s1 = (case model_turn sc of
                       None \<Rightarrow> s
                     | Some parts \<Rightarrow>
                         (let s0 = (if last_turn_end_time s > 0 then
                                      (let response_latency = (now - last_turn_end_time s) * 1000
                                       in s\<lparr>latency_stats :=
                                              add_response_latency response_latency (latency_stats s),
                                            last_turn_end_time := 0\<rparr>)
                                    else s)
                          in route_parts parts s0))
           in if turn_complete sc then s1\<lparr>last_turn_end_time := 0\<rparr> else s1))"

section \<open>Stall detector\<close>

datatype log_record = LogInfo | LogWarning | LogError

datatype exn = SessionStalled real | OtherException

text \<open>
  One check of \<^verbatim>\<open>stall_detector\<close> after its two-second sleep, at clock reading \<open>now\<close>:
  the log records it emits, and either the exception it raises or the client.
\<close>

definition stall_detector_step :: "real \<Rightarrow> client \<Rightarrow> log_record list \<times> (exn + client)" where
  "stall_detector_step now s =
     (if last_turn_end_time s > 0 \<and> current_turn_id s \<noteq> None then
        (let wait_time = now - last_turn_end_time s;
             logs = (if wait_time > STALL_TIMEOUT_S then [LogWarning] else [])
         in if wait_time > STALL_TIMEOUT_S * 2 then
              (logs @ [LogError, LogInfo], Inl (SessionStalled wait_time))
            else (logs, Inr s))
      else ([], Inr s))"

section \<open>Session supervisor\<close>

text \<open>The block of \<^verbatim>\<open>run\<close> that resets the client once a connection is open.\<close>

definition reset_session :: "client \<Rightarrow> client" where
  "reset_session s =
     clear_video_queue (clear_audio_queue
       (s\<lparr>last_turn_end_time := 0, current_turn_id := None, ptt_active := False,
          muted_flag := True, turn_end_requested := False, silence_chunks_to_send := 0,
          audio_chunks_sent_this_turn := 0\<rparr>))"

text \<open>
  What happens in one pass of the loop of \<^verbatim>\<open>run\<close>, as the environment decides it:
  \<^verbatim>\<open>self.running\<close> is false at the loop test; entering the connection raises; the
  connection opens and \<^verbatim>\<open>gather\<close> raises an exception of one of the tasks, is cancelled,
  or returns.
\<close>

datatype attempt =
    NotRunning
  | ConnectFailed
  | SessionRaised exn
  | SessionCancelled
  | SessionReturned

datatype sup_action =
    Connecting int
  | ResetState
  | StartTasks
  | CancelTasks
  | Sleep int
  | GiveUp

datatype loop_end = LoopLeft | StillLooping int

definition max_reconnects :: int where "max_reconnects = 5"

text \<open>
  The loop of \<^verbatim>\<open>run\<close> from the value of \<^verbatim>\<open>reconnect_count\<close>, against a script of
  passes: the actions taken, and whether the loop was left or the script ran out with
  the loop still going (then with which count).
\<close>

fun run_loop :: "int \<Rightarrow> attempt list \<Rightarrow> sup_action list \<times> loop_end" where
  "run_loop reconnect_count [] = ([], StillLooping reconnect_count)"
| "run_loop reconnect_count (a # script) =
     (if a \<noteq> NotRunning \<and> reconnect_count < max_reconnects then
        (case a of
           ConnectFailed \<Rightarrow>
             (let reconnect_count' = reconnect_count + 1
              in if reconnect_count' < max_reconnects then
                   (let wait_time = min 30 (2 ^ nat reconnect_count');
                        (acts, e) = run_loop reconnect_count' script
                    in (Connecting (reconnect_count + 1) # Sleep wait_time # acts, e))
                 else ([Connecting (reconnect_count + 1), GiveUp], LoopLeft))
         | SessionCancelled \<Rightarrow>
             ([Connecting (reconnect_count + 1), ResetState, StartTasks, CancelTasks], LoopLeft)
         | _ \<Rightarrow>
             (let (acts, e) = run_loop 0 script
              in (Connecting (reconnect_count + 1) # ResetState # StartTasks # CancelTasks # acts, e)))
      else ([], LoopLeft))"

section \<open>The coordinator as a machine driven by events\<close>

text \<open>
  \<^verbatim>\<open>request_shutdown\<close>, \<^verbatim>\<open>_on_hotkey_press\<close> and \<^verbatim>\<open>_on_hotkey_release\<close>. The cancellation of
  the tasks that \<^verbatim>\<open>request_shutdown\<close> schedules ends the session; it is an outcome of a pass
  of \<^verbatim>\<open>run\<close> above and not a change of the client.
\<close>

datatype key = F9 | F10 | OtherKey

definition request_shutdown :: "client \<Rightarrow> client" where
  "request_shutdown s = s\<lparr>running := False\<rparr>"

definition on_hotkey_press :: "key \<Rightarrow> 128 word \<Rightarrow> real \<Rightarrow> client \<Rightarrow> client" where
  "on_hotkey_press k u now s =
     (let s1 = (if push_to_talk_mode s then (if k = F9 then on_ptt_press u s else s)
                else (if k = F9 then toggle_mute u now s else s))
      in if k = F10 then request_shutdown s1 else s1)"

definition on_hotkey_release :: "key \<Rightarrow> real \<Rightarrow> client \<Rightarrow> client" where
  "on_hotkey_release k now s =
     (if push_to_talk_mode s \<and> k = F9 then on_ptt_release now s else s)"

text \<open>
  The steps that write the client, each taken as a whole: a key event with the UUID and
  clock reading it may consume, one iteration of each capture loop, one egress tick, one
  response received, and the reset made when a connection opens (which also restarts
  \<^verbatim>\<open>capture_screen\<close>, so its frame counter starts again at 0). A check of the stall detector
  writes nothing. The state is the frame counter of \<^verbatim>\<open>capture_screen\<close> with the client.
\<close>

datatype event =
    KeyPress key "128 word" real
  | KeyRelease key real
  | MicRead real bytes
  | ScreenGrab real bytes
  | SendTick "nat \<Rightarrow> real \<times> real" real
  | Received real "server_content option"
  | SessionOpened

fun step :: "event \<Rightarrow> int \<times> client \<Rightarrow> int \<times> client" where
  "step (KeyPress k u now) (fc, s) = (fc, on_hotkey_press k u now s)"
| "step (KeyRelease k now) (fc, s) = (fc, on_hotkey_release k now s)"
| "step (MicRead now d) (fc, s) = (fc, listen_audio_step now d s)"
| "step (ScreenGrab now img) (fc, s) = capture_screen_step now img (fc, s)"
| "step (SendTick clk vnow) (fc, s) = (fc, send_to_api_step clk vnow s)"
| "step (Received now response) (fc, s) = (fc, receive_from_api_step now response s)"
| "step SessionOpened (fc, s) = (0, reset_session s)"

definition run_events :: "event list \<Rightarrow> int \<times> client \<Rightarrow> int \<times> client" where
  "run_events evs st = fold step evs st"

text \<open>The chunks read from the microphone, during a run, at steps where the client is not muted.\<close>

fun unmuted_reads :: "event list \<Rightarrow> int \<times> client \<Rightarrow> TimestampedData list" where
  "unmuted_reads [] st = []"
| "unmuted_reads (MicRead now d # evs) st =
     (if \<not> muted (snd st) then [\<lparr>data = d, timestamp = now\<rparr>] else [])
     @ unmuted_reads evs (step (MicRead now d) st)"
| "unmuted_reads (e # evs) st = unmuted_reads evs (step e st)"

text \<open>The clock readings that stamp the payloads deposited during a run, in order.\<close>

fun stamp_of :: "event \<Rightarrow> real list" where
  "stamp_of (MicRead now d) = [now]"
| "stamp_of (ScreenGrab now img) = [now]"
| "stamp_of e = []"

text \<open>
  The first statement of \<^verbatim>\<open>run\<close> stores the running event loop in \<^verbatim>\<open>self._loop\<close>, before the
  hotkey listener is started: key events meet a client whose loop is running.
\<close>

definition run_started :: "client \<Rightarrow> client" where
  "run_started s = s\<lparr>loop_running := True\<rparr>"

section \<open>Invariants and vocabulary of the statements\<close>

text \<open>An open microphone (toggle mode) or a held key (push-to-talk) has a turn identifier.\<close>

definition turn_known :: "client \<Rightarrow> bool" where
  "turn_known s = ((\<not> muted_flag s \<or> ptt_active s) \<longrightarrow> truthy (current_turn_id s))"

definition queues_bounded :: "client \<Rightarrow> bool" where
  "queues_bounded s = (length (audio_queue_in s) \<le> AUDIO_QUEUE_MAX_SIZE
                       \<and> length (video_queue_in s) \<le> SCREEN_QUEUE_SIZE)"

definition fps_in_range :: "client \<Rightarrow> bool" where
  "fps_in_range s = (SCREEN_FPS_MIN \<le> current_screen_fps s \<and> current_screen_fps s \<le> SCREEN_FPS)"

text \<open>
  The chunks of a queue, each with its position counted from \<open>i\<close>, that an egress tick
  finds within the backlog budget, and those it finds beyond it.
\<close>

definition fresh_audio ::
  "(nat \<Rightarrow> real \<times> real) \<Rightarrow> nat \<Rightarrow> TimestampedData list \<Rightarrow> (nat \<times> TimestampedData) list" where
  "fresh_audio clk i q =
     filter (\<lambda>(j, x). \<not> age_ms (fst (clk j)) x > AUDIO_MAX_BACKLOG_MS) (enumerate i q)"

definition stale_audio ::
  "(nat \<Rightarrow> real \<times> real) \<Rightarrow> nat \<Rightarrow> TimestampedData list \<Rightarrow> (nat \<times> TimestampedData) list" where
  "stale_audio clk i q =
     filter (\<lambda>(j, x). age_ms (fst (clk j)) x > AUDIO_MAX_BACKLOG_MS) (enumerate i q)"

section \<open>Example inputs\<close>

text \<open>Two version-4 UUIDs that differ in their last digit only.\<close>

definition uuid_a :: "128 word" where "uuid_a = 0x1234567800004000800000000000000a"
definition uuid_b :: "128 word" where "uuid_b = 0x1234567800004000800000000000000b"

definition chunk_a :: bytes where "chunk_a = [1, 2]"
definition chunk_b :: bytes where "chunk_b = [3, 4]"
definition chunk_c :: bytes where "chunk_c = [5, 6]"
definition frame_a :: bytes where "frame_a = [255, 216]"
definition frame_b :: bytes where "frame_b = [255, 217]"

text \<open>A tick whose clock reads 10.0 s at every budget check and 10.001 s at every latency record.\<close>

definition tick_clock :: "nat \<Rightarrow> real \<times> real" where
  "tick_clock i = (10, 10.001)"

text \<open>A key press that opens a turn, one chunk read 20 ms before the tick, and the tick.\<close>

definition talk_events :: "event list" where
  "talk_events = [KeyPress F9 uuid_a 9.9, MicRead 9.98 chunk_a, SendTick tick_clock 10.002]"

text \<open>A key press that opens a turn and six chunks read 64 ms apart with no tick in between.\<close>

definition backlog_events :: "event list" where
  "backlog_events =
     [KeyPress F9 uuid_a 9, MicRead 9.064 chunk_a, MicRead 9.128 chunk_b, MicRead 9.192 chunk_c,
      MicRead 9.256 chunk_a, MicRead 9.32 chunk_b]"

text \<open>
  A key press that opens a turn and five chunks read while the wall clock is set back by
  a second before each read.
\<close>

definition clock_set_back_events :: "event list" where
  "clock_set_back_events =
     [KeyPress F9 uuid_a 5, MicRead 5 chunk_a, MicRead 4 chunk_b, MicRead 3 chunk_c,
      MicRead 2 chunk_a, MicRead 1 chunk_b]"

text \<open>A chunk read while the microphone is still closed, the key press that opens it, and a chunk read after.\<close>

definition muted_then_talk_events :: "event list" where
  "muted_then_talk_events = [MicRead 8.9 chunk_c, KeyPress F9 uuid_a 9, MicRead 9.064 chunk_a]"

text \<open>A client whose screen latency window has mean 400 ms.\<close>

definition at_threshold :: client where
  "at_threshold =
     (run_started (init_client False))
       \<lparr>latency_stats := \<lparr>audio_capture_to_send = [],
                          screen_capture_to_send = [500, 500, 500, 250, 250],
                          model_response_latency = []\<rparr>\<rparr>"

text \<open>A client that ended a turn at clock reading 100 and has had no reply.\<close>

definition awaiting_reply :: client where
  "awaiting_reply =
     (run_started (init_client False))
       \<lparr>current_turn_id := Some ''12345678'', last_turn_end_time := 100\<rparr>"

text \<open>A client whose screen latency window has mean 475 ms.\<close>

definition slow_screen :: client where
  "slow_screen =
     (run_started (init_client False))
       \<lparr>latency_stats := \<lparr>audio_capture_to_send = [], screen_capture_to_send = [500, 450],
                          model_response_latency = []\<rparr>\<rparr>"

text \<open>A client at one frame per second whose screen latency window has mean 75 ms.\<close>

definition recovered_screen :: client where
  "recovered_screen =
     (run_started (init_client False))
       \<lparr>latency_stats := \<lparr>audio_capture_to_send = [], screen_capture_to_send = [100, 50],
                          model_response_latency = []\<rparr>,
        current_screen_fps := 1\<rparr>"

text \<open>
  An open turn with three chunks queued 300, 100 and 50 ms before the tick of
  \<open>tick_clock\<close>, and a frame grabbed 202 ms before its age is taken.
\<close>

definition mid_turn :: client where
  "mid_turn =
     (run_started (init_client False))
       \<lparr>muted_flag := False, current_turn_id := Some (new_turn_id uuid_a),
        audio_queue_in := [\<lparr>data = chunk_a, timestamp = 9.7\<rparr>, \<lparr>data = chunk_b, timestamp = 9.9\<rparr>,
                           \<lparr>data = chunk_c, timestamp = 9.95\<rparr>],
        video_queue_in := [\<lparr>data = frame_a, timestamp = 9.8\<rparr>]\<rparr>"

section \<open>Facts about the loops and the steps\<close>

lemmas config_defs =
  CHUNK_SIZE_def SCREEN_FPS_def SCREEN_FPS_MIN_def SCREEN_SEND_ONLY_DURING_TURN_def
  SEND_SILENCE_AFTER_PTT_MS_def AUDIO_QUEUE_MAX_SIZE_def SCREEN_QUEUE_SIZE_def
  AUDIO_MAX_BACKLOG_MS_def SCREEN_MAX_AGE_MS_def STALL_TIMEOUT_S_def LATENCY_WINDOW_SIZE_def

lemma clear_queue_Nil [simp]: "clear_queue q = []"
  by (induction q) (simp_all add: queue_empty_def)

declare clear_queue.simps [simp del]

lemma length_hex32: "length (hex32 w) = 32"
  by (simp add: hex32_def)

lemma length_new_turn_id: "length (new_turn_id u) = 8"
  by (simp add: new_turn_id_def str_uuid_def length_hex32 Let_def)

lemma new_turn_id_nonempty [simp]: "new_turn_id u \<noteq> []"
  using length_new_turn_id[of u] by (cases "new_turn_id u") simp_all

lemma audio_drain_Nil: "audio_queue_in s = [] \<Longrightarrow> audio_drain clk i s = s"
  by (simp add: queue_empty_def)

lemma audio_drain_Cons:
  "audio_queue_in s = x # q \<Longrightarrow>
   audio_drain clk i s =
     (if age_ms (fst (clk i)) x > AUDIO_MAX_BACKLOG_MS
      then audio_drain clk (Suc i) (s\<lparr>audio_queue_in := q, audio_drop_count := audio_drop_count s + 1\<rparr>)
      else audio_drain clk (Suc i)
             (s\<lparr>audio_queue_in := q,
                session_sent := session_sent s @ [Audio (data x)],
                latency_stats := add_audio_latency (age_ms (snd (clk i)) x) (latency_stats s),
                audio_chunks_sent_this_turn := audio_chunks_sent_this_turn s + 1\<rparr>))"
  by (subst audio_drain.simps) (simp add: queue_empty_def Let_def)

declare audio_drain.simps [simp del]

lemma audio_drain_frame:
  "audio_queue_in s = q \<Longrightarrow>
   push_to_talk_mode (audio_drain clk i s) = push_to_talk_mode s
   \<and> video_queue_in (audio_drain clk i s) = video_queue_in s
   \<and> running (audio_drain clk i s) = running s
   \<and> muted_flag (audio_drain clk i s) = muted_flag s
   \<and> ptt_active (audio_drain clk i s) = ptt_active s
   \<and> current_turn_id (audio_drain clk i s) = current_turn_id s
   \<and> turn_end_requested (audio_drain clk i s) = turn_end_requested s
   \<and> last_turn_end_time (audio_drain clk i s) = last_turn_end_time s
   \<and> silence_chunks_to_send (audio_drain clk i s) = silence_chunks_to_send s
   \<and> current_screen_fps (audio_drain clk i s) = current_screen_fps s
   \<and> screen_drop_count (audio_drain clk i s) = screen_drop_count s
   \<and> loop_running (audio_drain clk i s) = loop_running s
   \<and> screen_capture_to_send (latency_stats (audio_drain clk i s)) = screen_capture_to_send (latency_stats s)
   \<and> model_response_latency (latency_stats (audio_drain clk i s)) = model_response_latency (latency_stats s)"
proof (induction q arbitrary: s i)
  case Nil
  then show ?case by (simp add: audio_drain_Nil)
next
  case (Cons x q)
  show ?case
    by (simp add: audio_drain_Cons[OF Cons.prems] Cons.IH add_audio_latency_def)
qed

lemma audio_drain_unchanged [simp]:
  "push_to_talk_mode (audio_drain clk i s) = push_to_talk_mode s"
  "video_queue_in (audio_drain clk i s) = video_queue_in s"
  "running (audio_drain clk i s) = running s"
  "muted_flag (audio_drain clk i s) = muted_flag s"
  "ptt_active (audio_drain clk i s) = ptt_active s"
  "current_turn_id (audio_drain clk i s) = current_turn_id s"
  "turn_end_requested (audio_drain clk i s) = turn_end_requested s"
  "last_turn_end_time (audio_drain clk i s) = last_turn_end_time s"
  "silence_chunks_to_send (audio_drain clk i s) = silence_chunks_to_send s"
  "current_screen_fps (audio_drain clk i s) = current_screen_fps s"
  "screen_drop_count (audio_drain clk i s) = screen_drop_count s"
  "loop_running (audio_drain clk i s) = loop_running s"
  "screen_capture_to_send (latency_stats (audio_drain clk i s)) = screen_capture_to_send (latency_stats s)"
  "model_response_latency (latency_stats (audio_drain clk i s)) = model_response_latency (latency_stats s)"
  using audio_drain_frame[OF refl, of clk i s] by simp_all

lemma muted_audio_drain [simp]: "muted (audio_drain clk i s) = muted s"
  by (simp add: muted_def)

lemma audio_drain_empties: "audio_queue_in s = q \<Longrightarrow> audio_queue_in (audio_drain clk i s) = []"
proof (induction q arbitrary: s i)
  case Nil
  then show ?case by (simp add: audio_drain_Nil)
next
  case (Cons x q)
  show ?case
    by (simp add: audio_drain_Cons[OF Cons.prems] Cons.IH)
qed

lemma route_parts_frame:
  "push_to_talk_mode (route_parts ps s) = push_to_talk_mode s
   \<and> audio_queue_in (route_parts ps s) = audio_queue_in s
   \<and> video_queue_in (route_parts ps s) = video_queue_in s
   \<and> running (route_parts ps s) = running s
   \<and> muted_flag (route_parts ps s) = muted_flag s
   \<and> ptt_active (route_parts ps s) = ptt_active s
   \<and> current_turn_id (route_parts ps s) = current_turn_id s
   \<and> turn_end_requested (route_parts ps s) = turn_end_requested s
   \<and> last_turn_end_time (route_parts ps s) = last_turn_end_time s
   \<and> audio_chunks_sent_this_turn (route_parts ps s) = audio_chunks_sent_this_turn s
   \<and> silence_chunks_to_send (route_parts ps s) = silence_chunks_to_send s
   \<and> latency_stats (route_parts ps s) = latency_stats s
   \<and> current_screen_fps (route_parts ps s) = current_screen_fps s
   \<and> audio_drop_count (route_parts ps s) = audio_drop_count s
   \<and> screen_drop_count (route_parts ps s) = screen_drop_count s
   \<and> loop_running (route_parts ps s) = loop_running s
   \<and> session_sent (route_parts ps s) = session_sent s"
  by (induction ps arbitrary: s) (simp_all split: option.splits)

lemma receive_from_api_step_unchanged [simp]:
  "push_to_talk_mode (receive_from_api_step now r s) = push_to_talk_mode s"
  "audio_queue_in (receive_from_api_step now r s) = audio_queue_in s"
  "video_queue_in (receive_from_api_step now r s) = video_queue_in s"
  "running (receive_from_api_step now r s) = running s"
  "muted_flag (receive_from_api_step now r s) = muted_flag s"
  "ptt_active (receive_from_api_step now r s) = ptt_active s"
  "current_turn_id (receive_from_api_step now r s) = current_turn_id s"
  "turn_end_requested (receive_from_api_step now r s) = turn_end_requested s"
  "audio_chunks_sent_this_turn (receive_from_api_step now r s) = audio_chunks_sent_this_turn s"
  "silence_chunks_to_send (receive_from_api_step now r s) = silence_chunks_to_send s"
  "current_screen_fps (receive_from_api_step now r s) = current_screen_fps s"
  "audio_drop_count (receive_from_api_step now r s) = audio_drop_count s"
  "screen_drop_count (receive_from_api_step now r s) = screen_drop_count s"
  "loop_running (receive_from_api_step now r s) = loop_running s"
  "session_sent (receive_from_api_step now r s) = session_sent s"
  by (simp_all add: receive_from_api_step_def route_parts_frame Let_def split: option.splits)

lemma muted_receive_from_api_step [simp]: "muted (receive_from_api_step now r s) = muted s"
  by (simp add: muted_def)

subsection \<open>An open turn has an identifier\<close>

lemma turn_known_receive: "turn_known s \<Longrightarrow> turn_known (receive_from_api_step now r s)"
  by (simp add: turn_known_def)

lemma turn_known_toggle_mute: "turn_known s \<Longrightarrow> turn_known (toggle_mute u now s)"
  by (simp add: turn_known_def toggle_mute_def clear_audio_queue_def clear_video_queue_def
      request_turn_end_def Let_def)

lemma turn_known_on_ptt_press: "turn_known s \<Longrightarrow> turn_known (on_ptt_press u s)"
  by (simp add: turn_known_def on_ptt_press_def clear_audio_queue_def clear_video_queue_def Let_def)

lemma turn_known_on_ptt_release: "turn_known s \<Longrightarrow> turn_known (on_ptt_release now s)"
  by (simp add: turn_known_def on_ptt_release_def request_turn_end_def Let_def)

lemma turn_known_listen: "turn_known s \<Longrightarrow> turn_known (listen_audio_step now d s)"
  by (auto simp: turn_known_def listen_audio_step_def put_nowait_def Let_def split: option.splits)

lemma turn_known_capture: "turn_known s \<Longrightarrow> turn_known (snd (capture_screen_step now img (fc, s)))"
  by (auto simp: turn_known_def capture_screen_step_def put_nowait_def Let_def split: option.splits)

lemma turn_known_send: "turn_known s \<Longrightarrow> turn_known (send_to_api_step clk vnow s)"
  by (auto simp: turn_known_def send_to_api_step_def Let_def split: option.splits)

lemma turn_known_reset: "turn_known (reset_session s)"
  by (simp add: turn_known_def reset_session_def clear_audio_queue_def clear_video_queue_def)

lemma turn_known_step: "turn_known (snd st) \<Longrightarrow> turn_known (snd (step e st))"
  by (cases e; cases st)
     (simp_all add: on_hotkey_press_def on_hotkey_release_def request_shutdown_def Let_def
        turn_known_toggle_mute turn_known_on_ptt_press turn_known_on_ptt_release turn_known_listen
        turn_known_capture turn_known_send turn_known_reset turn_known_receive,
      (simp add: turn_known_def)+)

lemma turn_known_run: "turn_known (snd st) \<Longrightarrow> turn_known (snd (run_events evs st))"
  unfolding run_events_def
  by (induction evs arbitrary: st) (simp_all add: turn_known_step)

lemma turn_known_init: "turn_known (run_started (init_client m))"
  by (simp add: turn_known_def init_client_def run_started_def)

subsection \<open>Closing a turn\<close>

lemma toggle_mute_closing:
  assumes "\<not> muted_flag s" "truthy (current_turn_id s)" "audio_chunks_sent_this_turn s > 0"
  shows "silence_chunks_to_send (toggle_mute u now s) = max 1 (SEND_SILENCE_AFTER_PTT_MS div 64)"
  using assms by (simp add: toggle_mute_def request_turn_end_def Let_def)

lemma toggle_mute_closing_nothing_sent:
  assumes "\<not> muted_flag s" "audio_chunks_sent_this_turn s = 0"
  shows "toggle_mute u now s = s\<lparr>muted_flag := True\<rparr>"
  using assms by (simp add: toggle_mute_def Let_def)

lemma on_ptt_release_closing:
  assumes "ptt_active s" "truthy (current_turn_id s)" "audio_chunks_sent_this_turn s > 0"
  shows "silence_chunks_to_send (on_ptt_release now s) = max 1 (SEND_SILENCE_AFTER_PTT_MS div 64)"
  using assms by (simp add: on_ptt_release_def request_turn_end_def Let_def)

lemma on_ptt_release_nothing_sent:
  assumes "ptt_active s" "audio_chunks_sent_this_turn s = 0"
  shows "on_ptt_release now s = s\<lparr>ptt_active := False\<rparr>"
  using assms by (simp add: on_ptt_release_def Let_def)

lemma silence_500_64: "max 1 (SEND_SILENCE_AFTER_PTT_MS div 64) = 7"
  by (simp add: SEND_SILENCE_AFTER_PTT_MS_def)

text \<open>
  Claim C1, as amended. In every state the coordinator reaches, closing a turn in which
  chunks were sent (muting an open microphone in toggle mode, releasing the held key in
  push-to-talk mode) sets the pending silence counter to \<open>max 1 (500 div 64)\<close>, which is
  7; closing a turn in which no chunk was sent leaves the silence counter, the turn-end
  request flag and the turn-end time as they were.
\<close>

theorem closing_turn_schedules_silence:
  assumes "s = snd (run_events evs (0, run_started (init_client m)))"
  shows "(\<not> muted_flag s \<and> audio_chunks_sent_this_turn s > 0 \<longrightarrow>
            silence_chunks_to_send (toggle_mute u now s) = max 1 (SEND_SILENCE_AFTER_PTT_MS div 64)
          \<and> silence_chunks_to_send (toggle_mute u now s) = 7)
       \<and> (ptt_active s \<and> audio_chunks_sent_this_turn s > 0 \<longrightarrow>
            silence_chunks_to_send (on_ptt_release now s) = max 1 (SEND_SILENCE_AFTER_PTT_MS div 64)
          \<and> silence_chunks_to_send (on_ptt_release now s) = 7)
       \<and> (\<not> muted_flag s \<and> audio_chunks_sent_this_turn s = 0 \<longrightarrow>
            silence_chunks_to_send (toggle_mute u now s) = silence_chunks_to_send s
          \<and> turn_end_requested (toggle_mute u now s) = turn_end_requested s
          \<and> last_turn_end_time (toggle_mute u now s) = last_turn_end_time s)
       \<and> (ptt_active s \<and> audio_chunks_sent_this_turn s = 0 \<longrightarrow>
            silence_chunks_to_send (on_ptt_release now s) = silence_chunks_to_send s
          \<and> turn_end_requested (on_ptt_release now s) = turn_end_requested s
          \<and> last_turn_end_time (on_ptt_release now s) = last_turn_end_time s)"
proof -
  have "turn_known s"
    unfolding assms using turn_known_run[of "(0, run_started (init_client m))" evs] by (simp add: turn_known_init)
  then have tk: "\<not> muted_flag s \<or> ptt_active s \<Longrightarrow> truthy (current_turn_id s)"
    by (simp add: turn_known_def)
  show ?thesis
    using tk
    by (simp add: toggle_mute_closing on_ptt_release_closing toggle_mute_closing_nothing_sent
        on_ptt_release_nothing_sent silence_500_64)
qed

lemma run_events_Nil [simp]: "run_events [] st = st"
  by (simp add: run_events_def)

lemma run_events_Cons [simp]: "run_events (e # evs) st = run_events evs (step e st)"
  by (simp add: run_events_def)

lemma run_events_invariant:
  assumes "P st" and "\<And>e st. P st \<Longrightarrow> P (step e st)"
  shows "P (run_events evs st)"
  using assms(1) by (induction evs arbitrary: st) (simp_all add: assms(2))

subsection \<open>The queues after each operation\<close>

lemma queues_toggle_mute:
  "audio_queue_in (toggle_mute u now s) = (if muted_flag s then [] else audio_queue_in s)"
  "video_queue_in (toggle_mute u now s) = (if muted_flag s then [] else video_queue_in s)"
  by (simp_all add: toggle_mute_def clear_audio_queue_def clear_video_queue_def
      request_turn_end_def Let_def)

lemma queues_on_ptt_press:
  "audio_queue_in (on_ptt_press u s) = (if ptt_active s then audio_queue_in s else [])"
  "video_queue_in (on_ptt_press u s) = (if ptt_active s then video_queue_in s else [])"
  by (simp_all add: on_ptt_press_def clear_audio_queue_def clear_video_queue_def Let_def)

lemma queues_on_ptt_release:
  "audio_queue_in (on_ptt_release now s) = audio_queue_in s"
  "video_queue_in (on_ptt_release now s) = video_queue_in s"
  by (simp_all add: on_ptt_release_def request_turn_end_def Let_def)

lemma queues_on_hotkey_press:
  "audio_queue_in (on_hotkey_press k u now s) = audio_queue_in s \<or> audio_queue_in (on_hotkey_press k u now s) = []"
  "video_queue_in (on_hotkey_press k u now s) = video_queue_in s \<or> video_queue_in (on_hotkey_press k u now s) = []"
  by (simp_all add: on_hotkey_press_def request_shutdown_def queues_toggle_mute queues_on_ptt_press Let_def)

lemma queues_on_hotkey_release:
  "audio_queue_in (on_hotkey_release k now s) = audio_queue_in s"
  "video_queue_in (on_hotkey_release k now s) = video_queue_in s"
  by (simp_all add: on_hotkey_release_def queues_on_ptt_release)

lemma queues_reset_session:
  "audio_queue_in (reset_session s) = []" "video_queue_in (reset_session s) = []"
  by (simp_all add: reset_session_def clear_audio_queue_def clear_video_queue_def)

lemma audio_queue_listen_audio_step:
  "audio_queue_in (listen_audio_step now d s) =
     (if d \<noteq> [] \<and> \<not> muted s then
        (if length (audio_queue_in s) < 5 then audio_queue_in s @ [\<lparr>data = d, timestamp = now\<rparr>]
         else if length (audio_queue_in s) = 5 then tl (audio_queue_in s) @ [\<lparr>data = d, timestamp = now\<rparr>]
         else tl (audio_queue_in s))
      else audio_queue_in s)"
  by (cases "audio_queue_in s")
     (auto simp: listen_audio_step_def queue_full_def put_nowait_def AUDIO_QUEUE_MAX_SIZE_def Let_def)

lemma video_queue_listen_audio_step:
  "video_queue_in (listen_audio_step now d s) = video_queue_in s"
  by (auto simp: listen_audio_step_def put_nowait_def Let_def split: option.splits)

lemma audio_queue_capture_screen_step:
  "audio_queue_in (snd (capture_screen_step now img (fc, s))) = audio_queue_in s"
  by (auto simp: capture_screen_step_def put_nowait_def Let_def split: option.splits)

lemma video_queue_capture_screen_step:
  "video_queue_in (snd (capture_screen_step now img (fc, s))) =
     (if length (video_queue_in s) \<le> 1 then [\<lparr>data = img, timestamp = now\<rparr>]
      else tl (video_queue_in s))"
  by (cases "video_queue_in s")
     (auto simp: capture_screen_step_def queue_full_def put_nowait_def SCREEN_QUEUE_SIZE_def Let_def
        Suc_le_eq)

lemma audio_queue_send_to_api_step:
  "audio_queue_in (send_to_api_step clk vnow s) = []"
  by (auto simp: send_to_api_step_def Let_def audio_drain_empties[OF refl] split: option.splits)

lemma video_queue_send_to_api_step:
  "video_queue_in (send_to_api_step clk vnow s) = tl (video_queue_in s)"
  by (cases "video_queue_in s")
     (auto simp: send_to_api_step_def Let_def queue_empty_def)

subsection \<open>The queues stay within their capacity\<close>

lemma queues_bounded_step: "queues_bounded (snd st) \<Longrightarrow> queues_bounded (snd (step e st))"
proof (cases st)
  case (Pair fc s)
  assume b: "queues_bounded (snd st)"
  show ?thesis
  proof (cases e)
    case (KeyPress k u now)
    then show ?thesis
      using b Pair queues_on_hotkey_press[of k u now s]
      by (auto simp: queues_bounded_def)
  next
    case (KeyRelease k now)
    then show ?thesis using b Pair by (simp add: queues_bounded_def queues_on_hotkey_release)
  next
    case (MicRead now d)
    then show ?thesis using b Pair
      by (auto simp: queues_bounded_def audio_queue_listen_audio_step video_queue_listen_audio_step
          AUDIO_QUEUE_MAX_SIZE_def)
  next
    case (ScreenGrab now img)
    then show ?thesis using b Pair
      by (simp add: queues_bounded_def audio_queue_capture_screen_step video_queue_capture_screen_step
          SCREEN_QUEUE_SIZE_def)
  next
    case (SendTick clk vnow)
    then show ?thesis using b Pair
      by (auto simp: queues_bounded_def audio_queue_send_to_api_step video_queue_send_to_api_step)
  next
    case (Received now r)
    then show ?thesis using b Pair by (simp add: queues_bounded_def)
  next
    case SessionOpened
    then show ?thesis using Pair by (simp add: queues_bounded_def queues_reset_session)
  qed
qed

lemma queues_bounded_run:
  "queues_bounded (snd st) \<Longrightarrow> queues_bounded (snd (run_events evs st))"
  by (rule run_events_invariant[where P = "\<lambda>st. queues_bounded (snd st)"]) (simp_all add: queues_bounded_step)

lemma queues_bounded_init: "queues_bounded (run_started (init_client m))"
  by (simp add: queues_bounded_def run_started_def init_client_def)

subsection \<open>The audio queue after a step: a suffix of the queue, then the chunk read\<close>

lemma unmuted_reads_single:
  "unmuted_reads [e] st =
     (case e of MicRead now d \<Rightarrow> if \<not> muted (snd st) then [\<lparr>data = d, timestamp = now\<rparr>] else []
      | _ \<Rightarrow> [])"
  by (cases e) simp_all

lemma unmuted_reads_Cons:
  "unmuted_reads (e # evs) st = unmuted_reads [e] st @ unmuted_reads evs (step e st)"
  by (cases e) simp_all

lemma audio_queue_step_shape:
  "\<exists>k ys. audio_queue_in (snd (step e st)) = drop k (audio_queue_in (snd st)) @ ys
          \<and> set ys \<subseteq> set (unmuted_reads [e] st)
          \<and> (ys = [] \<or> map timestamp ys = stamp_of e)"
proof (cases st)
  case (Pair fc s)
  let ?q = "audio_queue_in s"
  have keep: "audio_queue_in (snd (step e st)) = ?q \<Longrightarrow> ?thesis"
    using Pair by (intro exI[of _ 0] exI[of _ "[]"]) simp
  have cleared: "audio_queue_in (snd (step e st)) = [] \<Longrightarrow> ?thesis"
    using Pair by (intro exI[of _ "length ?q"] exI[of _ "[]"]) simp
  show ?thesis
  proof (cases e)
    case (KeyPress k u now)
    then show ?thesis
      using Pair queues_on_hotkey_press(1)[of k u now s] keep cleared by auto
  next
    case (KeyRelease k now)
    then show ?thesis using Pair keep by (simp add: queues_on_hotkey_release)
  next
    case (MicRead now d)
    let ?new = "\<lparr>data = d, timestamp = now\<rparr>"
    have "audio_queue_in (listen_audio_step now d s) = ?q
        \<or> (\<not> muted s \<and> audio_queue_in (listen_audio_step now d s) = ?q @ [?new])
        \<or> (\<not> muted s \<and> audio_queue_in (listen_audio_step now d s) = tl ?q @ [?new])
        \<or> audio_queue_in (listen_audio_step now d s) = tl ?q"
      by (simp add: audio_queue_listen_audio_step)
    then consider (skip) "audio_queue_in (listen_audio_step now d s) = ?q"
      | (app) "\<not> muted s" "audio_queue_in (listen_audio_step now d s) = ?q @ [?new]"
      | (evict) "\<not> muted s" "audio_queue_in (listen_audio_step now d s) = tl ?q @ [?new]"
      | (over) "audio_queue_in (listen_audio_step now d s) = tl ?q"
      by blast
    then show ?thesis
    proof cases
      case skip
      then show ?thesis using keep MicRead Pair by simp
    next
      case app
      then show ?thesis using MicRead Pair
        by (intro exI[of _ 0] exI[of _ "[?new]"]) simp
    next
      case evict
      then show ?thesis using MicRead Pair
        by (intro exI[of _ 1] exI[of _ "[?new]"]) (simp add: drop_Suc)
    next
      case over
      then show ?thesis using MicRead Pair
        by (intro exI[of _ 1] exI[of _ "[]"]) (simp add: drop_Suc)
    qed
  next
    case (ScreenGrab now img)
    then show ?thesis using Pair keep by (simp add: audio_queue_capture_screen_step)
  next
    case (SendTick clk vnow)
    then show ?thesis using Pair cleared by (simp add: audio_queue_send_to_api_step)
  next
    case (Received now r)
    then show ?thesis using Pair keep by simp
  next
    case SessionOpened
    then show ?thesis using Pair cleared by (simp add: queues_reset_session)
  qed
qed

lemma sorted_drop_mid:
  fixes xs :: "real list"
  shows "sorted (xs @ ys @ zs) \<Longrightarrow> sorted (drop k xs @ zs)"
  by (auto simp: sorted_append dest: in_set_dropD intro: sorted_wrt_drop)

lemma sorted_stamps_step:
  assumes "sorted (map timestamp (audio_queue_in (snd st)) @ stamp_of e @ rest)"
  shows "sorted (map timestamp (audio_queue_in (snd (step e st))) @ rest)"
proof -
  obtain k ys where q': "audio_queue_in (snd (step e st)) = drop k (audio_queue_in (snd st)) @ ys"
    and ys: "ys = [] \<or> map timestamp ys = stamp_of e"
    using audio_queue_step_shape[of e st] by blast
  from ys show ?thesis
  proof
    assume "ys = []"
    then show ?thesis
      using sorted_drop_mid[OF assms, of k] by (simp add: q' drop_map)
  next
    assume "map timestamp ys = stamp_of e"
    then show ?thesis
      using sorted_drop_mid[of "map timestamp (audio_queue_in (snd st))" "[]" "stamp_of e @ rest" k] assms
      by (simp add: q' drop_map)
  qed
qed

lemma sorted_stamps_run:
  "sorted (map timestamp (audio_queue_in (snd st)) @ concat (map stamp_of evs) @ rest) \<Longrightarrow>
   sorted (map timestamp (audio_queue_in (snd (run_events evs st))) @ rest)"
proof (induction evs arbitrary: st)
  case Nil
  then show ?case by simp
next
  case (Cons e evs)
  have "sorted (map timestamp (audio_queue_in (snd (step e st))) @ concat (map stamp_of evs) @ rest)"
    using Cons.prems sorted_stamps_step[of st e "concat (map stamp_of evs) @ rest"] by simp
  then show ?case using Cons.IH by simp
qed

lemma sorted_hd_least:
  "sorted (map timestamp q) \<Longrightarrow> x \<in> set q \<Longrightarrow> timestamp (hd q) \<le> timestamp x"
  by (cases q) auto

lemma audio_provenance_run:
  "set (audio_queue_in (snd (run_events evs st)))
     \<subseteq> set (audio_queue_in (snd st)) \<union> set (unmuted_reads evs st)"
proof (induction evs arbitrary: st)
  case Nil
  then show ?case by simp
next
  case (Cons e evs)
  obtain k ys where q': "audio_queue_in (snd (step e st)) = drop k (audio_queue_in (snd st)) @ ys"
    and ys: "set ys \<subseteq> set (unmuted_reads [e] st)"
    using audio_queue_step_shape[of e st] by blast
  have "set (audio_queue_in (snd (step e st))) \<subseteq> set (audio_queue_in (snd st)) \<union> set (unmuted_reads [e] st)"
    using ys set_drop_subset[of k "audio_queue_in (snd st)"] by (auto simp: q')
  then show ?case
    using Cons.IH[of "step e st"] by (subst unmuted_reads_Cons) auto
qed

section \<open>The egress tick\<close>

lemma fresh_audio_simps:
  "fresh_audio clk i [] = []"
  "fresh_audio clk i (x # q) =
     (if age_ms (fst (clk i)) x > AUDIO_MAX_BACKLOG_MS then fresh_audio clk (Suc i) q
      else (i, x) # fresh_audio clk (Suc i) q)"
  by (simp_all add: fresh_audio_def)

lemma stale_audio_simps:
  "stale_audio clk i [] = []"
  "stale_audio clk i (x # q) =
     (if age_ms (fst (clk i)) x > AUDIO_MAX_BACKLOG_MS then (i, x) # stale_audio clk (Suc i) q
      else stale_audio clk (Suc i) q)"
  by (simp_all add: stale_audio_def)

lemma audio_drain_drops:
  "audio_queue_in s = q \<Longrightarrow>
   audio_drop_count (audio_drain clk i s) = audio_drop_count s + int (length (stale_audio clk i q))"
proof (induction q arbitrary: s i)
  case Nil
  then show ?case by (simp add: audio_drain_Nil stale_audio_simps)
next
  case (Cons x q)
  show ?case
    by (simp add: audio_drain_Cons[OF Cons.prems] Cons.IH stale_audio_simps)
qed

lemma audio_drain_chunks:
  "audio_queue_in s = q \<Longrightarrow>
   audio_chunks_sent_this_turn (audio_drain clk i s)
     = audio_chunks_sent_this_turn s + int (length (fresh_audio clk i q))"
proof (induction q arbitrary: s i)
  case Nil
  then show ?case by (simp add: audio_drain_Nil fresh_audio_simps)
next
  case (Cons x q)
  show ?case
    by (simp add: audio_drain_Cons[OF Cons.prems] Cons.IH fresh_audio_simps)
qed

lemma audio_drain_sent:
  "audio_queue_in s = q \<Longrightarrow>
   session_sent (audio_drain clk i s)
     = session_sent s @ map (\<lambda>(j, x). Audio (data x)) (fresh_audio clk i q)"
proof (induction q arbitrary: s i)
  case Nil
  then show ?case by (simp add: audio_drain_Nil fresh_audio_simps)
next
  case (Cons x q)
  show ?case
    by (simp add: audio_drain_Cons[OF Cons.prems] Cons.IH fresh_audio_simps)
qed

lemma audio_drain_latency:
  "audio_queue_in s = q \<Longrightarrow>
   audio_capture_to_send (latency_stats (audio_drain clk i s))
     = foldl (deque_append LATENCY_WINDOW_SIZE) (audio_capture_to_send (latency_stats s))
         (map (\<lambda>(j, x). age_ms (snd (clk j)) x) (fresh_audio clk i q))"
proof (induction q arbitrary: s i)
  case Nil
  then show ?case by (simp add: audio_drain_Nil fresh_audio_simps)
next
  case (Cons x q)
  show ?case
    by (simp add: audio_drain_Cons[OF Cons.prems] Cons.IH fresh_audio_simps add_audio_latency_def)
qed

text \<open>
  Claim C8. One egress tick leaves the audio queue empty and pops at most the first video
  frame. What it hands to the transport is, in this order: the silence chunk if one is
  pending, the queued chunks found within the backlog budget, and the video frame if the
  client is not muted and the frame is within the screen age budget. Every chunk is
  either dropped and counted (beyond the budget) or sent, counted in the chunks of the
  turn and its latency recorded; a frame that is not sent is discarded.
\<close>

theorem egress_tick_audio_before_video:
  "audio_queue_in (send_to_api_step clk vnow s) = []
   \<and> video_queue_in (send_to_api_step clk vnow s) = tl (video_queue_in s)
   \<and> session_sent (send_to_api_step clk vnow s) =
       session_sent s
       @ (if silence_chunks_to_send s > 0 then [Audio (replicate (2 * CHUNK_SIZE) 0)] else [])
       @ map (\<lambda>(j, x). Audio (data x)) (fresh_audio clk 0 (audio_queue_in s))
       @ (case video_queue_in s of [] \<Rightarrow> []
          | frame # rest \<Rightarrow>
              if \<not> muted s \<and> age_ms vnow frame \<le> SCREEN_MAX_AGE_MS then [Media (data frame)] else [])
   \<and> audio_drop_count (send_to_api_step clk vnow s) =
       audio_drop_count s + int (length (stale_audio clk 0 (audio_queue_in s)))
   \<and> audio_chunks_sent_this_turn (send_to_api_step clk vnow s) =
       audio_chunks_sent_this_turn s + int (length (fresh_audio clk 0 (audio_queue_in s)))
   \<and> audio_capture_to_send (latency_stats (send_to_api_step clk vnow s)) =
       foldl (deque_append LATENCY_WINDOW_SIZE) (audio_capture_to_send (latency_stats s))
         (map (\<lambda>(j, x). age_ms (snd (clk j)) x) (fresh_audio clk 0 (audio_queue_in s)))
   \<and> screen_capture_to_send (latency_stats (send_to_api_step clk vnow s)) =
       (case video_queue_in s of [] \<Rightarrow> screen_capture_to_send (latency_stats s)
        | frame # rest \<Rightarrow>
            if \<not> muted s \<and> age_ms vnow frame \<le> SCREEN_MAX_AGE_MS
            then deque_append LATENCY_WINDOW_SIZE (screen_capture_to_send (latency_stats s)) (age_ms vnow frame)
            else screen_capture_to_send (latency_stats s))
   \<and> length (stale_audio clk 0 (audio_queue_in s)) + length (fresh_audio clk 0 (audio_queue_in s))
       = length (audio_queue_in s)"
proof -
  let ?s1 = "if turn_end_requested s then s\<lparr>turn_end_requested := False\<rparr> else s"
  let ?s2 = "if silence_chunks_to_send ?s1 > 0 then
               ?s1\<lparr>session_sent := session_sent ?s1 @ [Audio (replicate (CHUNK_SIZE * 2) 0)],
                    silence_chunks_to_send := silence_chunks_to_send ?s1 - 1\<rparr>
             else ?s1"
  let ?s3 = "audio_drain clk 0 ?s2"
  have q2: "audio_queue_in ?s2 = audio_queue_in s" by simp
  have "muted ?s2 = muted s" by (simp add: muted_def)
  then have m3: "muted ?s3 = muted s" by (simp only: muted_audio_drain)
  have v3: "video_queue_in ?s3 = video_queue_in s" by simp
  have sent3: "session_sent ?s3 = session_sent s
       @ (if silence_chunks_to_send s > 0 then [Audio (replicate (2 * CHUNK_SIZE) 0)] else [])
       @ map (\<lambda>(j, x). Audio (data x)) (fresh_audio clk 0 (audio_queue_in s))"
    by (simp add: audio_drain_sent[OF q2] mult.commute)
  have drops3: "audio_drop_count ?s3 = audio_drop_count s + int (length (stale_audio clk 0 (audio_queue_in s)))"
    by (simp add: audio_drain_drops[OF q2])
  have chunks3: "audio_chunks_sent_this_turn ?s3 =
       audio_chunks_sent_this_turn s + int (length (fresh_audio clk 0 (audio_queue_in s)))"
    by (simp add: audio_drain_chunks[OF q2])
  have lat3: "audio_capture_to_send (latency_stats ?s3) =
       foldl (deque_append LATENCY_WINDOW_SIZE) (audio_capture_to_send (latency_stats s))
         (map (\<lambda>(j, x). age_ms (snd (clk j)) x) (fresh_audio clk 0 (audio_queue_in s)))"
    by (simp add: audio_drain_latency[OF q2])
  have slat3: "screen_capture_to_send (latency_stats ?s3) = screen_capture_to_send (latency_stats s)"
    by simp
  have e3: "audio_queue_in ?s3 = []" by (rule audio_drain_empties[OF refl])
  have split: "length (stale_audio clk 0 (audio_queue_in s)) + length (fresh_audio clk 0 (audio_queue_in s))
       = length (audio_queue_in s)"
    unfolding stale_audio_def fresh_audio_def
    using sum_length_filter_compl[of "\<lambda>(j, x). age_ms (fst (clk j)) x > AUDIO_MAX_BACKLOG_MS" "enumerate 0 (audio_queue_in s)"]
    by (simp add: case_prod_unfold)
  have step: "send_to_api_step clk vnow s =
      (if \<not> queue_empty (video_queue_in ?s3) then
           (case get_nowait (video_queue_in ?s3) of
              None \<Rightarrow> ?s3
            | Some (timestamped, q') \<Rightarrow>
                (let s4 = ?s3\<lparr>video_queue_in := q'\<rparr>;
                     frame_age = age_ms vnow timestamped
                 in if \<not> (\<not> muted ?s3) then s4
                    else if frame_age > SCREEN_MAX_AGE_MS then
                      s4\<lparr>screen_drop_count := screen_drop_count s4 + 1\<rparr>
                    else
                      s4\<lparr>session_sent := session_sent s4 @ [Media (data timestamped)],
                          latency_stats := add_screen_latency frame_age (latency_stats s4)\<rparr>))
         else ?s3)"
    by (simp add: send_to_api_step_def Let_def SCREEN_SEND_ONLY_DURING_TURN_def)
  show ?thesis
  proof (cases "video_queue_in s")
    case Nil
    then have "send_to_api_step clk vnow s = ?s3"
      unfolding step v3 by (simp add: queue_empty_def)
    then show ?thesis
      using e3 sent3 drops3 chunks3 lat3 slat3 split v3 Nil by simp
  next
    case (Cons frame rest)
    show ?thesis
      unfolding step v3 m3 Cons
      using e3 sent3 drops3 chunks3 lat3 slat3 split
      by (simp add: queue_empty_def Let_def add_screen_latency_def not_less)
  qed
qed

text \<open>
  Claim C8, instance: the tick on \<open>mid_turn\<close> drops the chunk that is 300 ms old, sends the
  other two and then the frame.
\<close>

theorem egress_tick_audio_before_video_witness:
  "session_sent (send_to_api_step tick_clock 10.002 mid_turn)
     = [Audio chunk_b, Audio chunk_c, Media frame_a]
   \<and> audio_queue_in (send_to_api_step tick_clock 10.002 mid_turn) = []
   \<and> video_queue_in (send_to_api_step tick_clock 10.002 mid_turn) = []
   \<and> audio_drop_count (send_to_api_step tick_clock 10.002 mid_turn) = 1
   \<and> audio_chunks_sent_this_turn (send_to_api_step tick_clock 10.002 mid_turn) = 2
   \<and> audio_capture_to_send (latency_stats (send_to_api_step tick_clock 10.002 mid_turn)) = [101, 51]
   \<and> screen_capture_to_send (latency_stats (send_to_api_step tick_clock 10.002 mid_turn)) = [202]"
proof -
  have q: "audio_queue_in mid_turn
      = [\<lparr>data = chunk_a, timestamp = 9.7\<rparr>, \<lparr>data = chunk_b, timestamp = 9.9\<rparr>,
         \<lparr>data = chunk_c, timestamp = 9.95\<rparr>]"
    "video_queue_in mid_turn = [\<lparr>data = frame_a, timestamp = 9.8\<rparr>]"
    "session_sent mid_turn = []" "silence_chunks_to_send mid_turn = 0"
    "audio_drop_count mid_turn = 0" "audio_chunks_sent_this_turn mid_turn = 0"
    "audio_capture_to_send (latency_stats mid_turn) = []"
    "screen_capture_to_send (latency_stats mid_turn) = []"
    "\<not> muted mid_turn"
    by (simp_all add: mid_turn_def run_started_def init_client_def muted_def)
  have f: "fresh_audio tick_clock 0 (audio_queue_in mid_turn)
      = [(1, \<lparr>data = chunk_b, timestamp = 9.9\<rparr>), (2, \<lparr>data = chunk_c, timestamp = 9.95\<rparr>)]"
    "stale_audio tick_clock 0 (audio_queue_in mid_turn) = [(0, \<lparr>data = chunk_a, timestamp = 9.7\<rparr>)]"
    by (simp_all add: q fresh_audio_simps stale_audio_simps tick_clock_def age_ms_def
        AUDIO_MAX_BACKLOG_MS_def)
  show ?thesis
    using egress_tick_audio_before_video[of tick_clock "10.002" mid_turn]
    unfolding f
    by (simp add: q tick_clock_def age_ms_def SCREEN_MAX_AGE_MS_def LATENCY_WINDOW_SIZE_def
        deque_append_def)
qed

section \<open>The example runs\<close>

lemmas eval_simps =
  on_hotkey_press_def on_hotkey_release_def request_shutdown_def toggle_mute_def on_ptt_press_def
  on_ptt_release_def request_turn_end_def clear_audio_queue_def clear_video_queue_def
  listen_audio_step_def capture_screen_step_def send_to_api_step_def reset_session_def
  audio_drain_Nil audio_drain_Cons muted_def queue_full_def queue_empty_def put_nowait_def
  add_audio_latency_def add_screen_latency_def deque_append_def age_ms_def avg_screen_ms_def
  init_client_def run_started_def config_defs Let_def

lemma chunks_nonempty [simp]:
  "chunk_a \<noteq> []" "chunk_b \<noteq> []" "chunk_c \<noteq> []"
  by (simp_all add: chunk_a_def chunk_b_def chunk_c_def)

lemma talk_events_toggle:
  "snd (run_events talk_events (0, run_started (init_client False))) =
     (run_started (init_client False))
       \<lparr>muted_flag := False, current_turn_id := Some (new_turn_id uuid_a),
        audio_chunks_sent_this_turn := 1,
        latency_stats := \<lparr>audio_capture_to_send = [21], screen_capture_to_send = [],
                          model_response_latency = []\<rparr>,
        session_sent := [Audio chunk_a]\<rparr>"
  by (simp add: talk_events_def tick_clock_def eval_simps)

lemma talk_events_ptt:
  "snd (run_events talk_events (0, run_started (init_client True))) =
     (run_started (init_client True))
       \<lparr>ptt_active := True, current_turn_id := Some (new_turn_id uuid_a),
        audio_chunks_sent_this_turn := 1,
        latency_stats := \<lparr>audio_capture_to_send = [21], screen_capture_to_send = [],
                          model_response_latency = []\<rparr>,
        session_sent := [Audio chunk_a]\<rparr>"
  by (simp add: talk_events_def tick_clock_def eval_simps)

lemma backlog_events_toggle:
  "snd (run_events backlog_events (0, run_started (init_client False))) =
     (run_started (init_client False))
       \<lparr>muted_flag := False, current_turn_id := Some (new_turn_id uuid_a),
        audio_queue_in := [\<lparr>data = chunk_a, timestamp = 9.064\<rparr>, \<lparr>data = chunk_b, timestamp = 9.128\<rparr>,
          \<lparr>data = chunk_c, timestamp = 9.192\<rparr>, \<lparr>data = chunk_a, timestamp = 9.256\<rparr>,
          \<lparr>data = chunk_b, timestamp = 9.32\<rparr>]\<rparr>"
  by (simp add: backlog_events_def eval_simps)

text \<open>
  Claim C1 as stated fails: after a turn with one chunk sent, muting sets the counter to
  7, not to 8.
\<close>

theorem closing_turn_counter_is_7_not_8:
  "\<not> muted_flag (snd (run_events talk_events (0, run_started (init_client False))))
   \<and> audio_chunks_sent_this_turn (snd (run_events talk_events (0, run_started (init_client False)))) = 1
   \<and> silence_chunks_to_send
        (toggle_mute uuid_b 10.5 (snd (run_events talk_events (0, run_started (init_client False))))) = 7
   \<and> silence_chunks_to_send
        (toggle_mute uuid_b 10.5 (snd (run_events talk_events (0, run_started (init_client False))))) \<noteq> 8"
  unfolding talk_events_toggle by (simp add: eval_simps)

text \<open>
  Claim C1, instances: the reached states after \<open>talk_events\<close> (one chunk sent) and after
  the opening key press alone (no chunk sent), in both modes.
\<close>

theorem closing_turn_schedules_silence_witness:
  "\<not> muted_flag (snd (run_events talk_events (0, run_started (init_client False))))
   \<and> audio_chunks_sent_this_turn (snd (run_events talk_events (0, run_started (init_client False)))) > 0
   \<and> silence_chunks_to_send
        (toggle_mute uuid_b 10.5 (snd (run_events talk_events (0, run_started (init_client False))))) = 7
   \<and> ptt_active (snd (run_events talk_events (0, run_started (init_client True))))
   \<and> audio_chunks_sent_this_turn (snd (run_events talk_events (0, run_started (init_client True)))) > 0
   \<and> silence_chunks_to_send
        (on_ptt_release 10.5 (snd (run_events talk_events (0, run_started (init_client True))))) = 7
   \<and> \<not> muted_flag (snd (run_events [KeyPress F9 uuid_a 9.9] (0, run_started (init_client False))))
   \<and> audio_chunks_sent_this_turn
        (snd (run_events [KeyPress F9 uuid_a 9.9] (0, run_started (init_client False)))) = 0
   \<and> silence_chunks_to_send
        (toggle_mute uuid_b 10.5 (snd (run_events [KeyPress F9 uuid_a 9.9] (0, run_started (init_client False))))) = 0
   \<and> \<not> turn_end_requested
        (toggle_mute uuid_b 10.5 (snd (run_events [KeyPress F9 uuid_a 9.9] (0, run_started (init_client False)))))
   \<and> ptt_active (snd (run_events [KeyPress F9 uuid_a 9.9] (0, run_started (init_client True))))
   \<and> audio_chunks_sent_this_turn
        (snd (run_events [KeyPress F9 uuid_a 9.9] (0, run_started (init_client True)))) = 0
   \<and> silence_chunks_to_send
        (on_ptt_release 10.5 (snd (run_events [KeyPress F9 uuid_a 9.9] (0, run_started (init_client True))))) = 0
   \<and> \<not> turn_end_requested
        (on_ptt_release 10.5 (snd (run_events [KeyPress F9 uuid_a 9.9] (0, run_started (init_client True)))))"
proof -
  have a: "\<not> muted_flag (snd (run_events talk_events (0, run_started (init_client False))))
      \<and> audio_chunks_sent_this_turn (snd (run_events talk_events (0, run_started (init_client False)))) > 0"
    by (simp add: talk_events_toggle)
  have b: "ptt_active (snd (run_events talk_events (0, run_started (init_client True))))
      \<and> audio_chunks_sent_this_turn (snd (run_events talk_events (0, run_started (init_client True)))) > 0"
    by (simp add: talk_events_ptt)
  have c: "\<not> muted_flag (snd (run_events [KeyPress F9 uuid_a 9.9] (0, run_started (init_client False))))
      \<and> audio_chunks_sent_this_turn (snd (run_events [KeyPress F9 uuid_a 9.9] (0, run_started (init_client False)))) = 0
      \<and> silence_chunks_to_send (snd (run_events [KeyPress F9 uuid_a 9.9] (0, run_started (init_client False)))) = 0
      \<and> \<not> turn_end_requested (snd (run_events [KeyPress F9 uuid_a 9.9] (0, run_started (init_client False))))"
    by (simp add: eval_simps)
  have d: "ptt_active (snd (run_events [KeyPress F9 uuid_a 9.9] (0, run_started (init_client True))))
      \<and> audio_chunks_sent_this_turn (snd (run_events [KeyPress F9 uuid_a 9.9] (0, run_started (init_client True)))) = 0
      \<and> silence_chunks_to_send (snd (run_events [KeyPress F9 uuid_a 9.9] (0, run_started (init_client True)))) = 0
      \<and> \<not> turn_end_requested (snd (run_events [KeyPress F9 uuid_a 9.9] (0, run_started (init_client True))))"
    by (simp add: eval_simps)
  show ?thesis
    using a b c d
      closing_turn_schedules_silence[OF refl, of talk_events False uuid_b "10.5"]
      closing_turn_schedules_silence[OF refl, of talk_events True uuid_b "10.5"]
      closing_turn_schedules_silence[OF refl, of "[KeyPress F9 uuid_a 9.9]" False uuid_b "10.5"]
      closing_turn_schedules_silence[OF refl, of "[KeyPress F9 uuid_a 9.9]" True uuid_b "10.5"]
    by simp
qed

section \<open>Entering a turn\<close>

lemma new_turn_id_top_bits:
  "new_turn_id u = map (\<lambda>i. hex_digit (unat (drop_bit (4 * i) u AND 15))) (rev [24..<32])"
  by (simp add: new_turn_id_def str_uuid_def hex32_def Let_def take_map take_rev length_hex32)

lemma same_prefix: "new_turn_id uuid_a = new_turn_id uuid_b"
  unfolding uuid_a_def uuid_b_def by code_simp

lemma uuids_differ: "uuid_a \<noteq> uuid_b"
  by (simp add: uuid_a_def uuid_b_def)

text \<open>
  Claim C5 as stated fails on "previously unused": two turns opened with different UUIDs
  that agree on their first eight hexadecimal digits get the same turn identifier, in
  push-to-talk mode and in toggle mode.
\<close>

theorem turn_id_used_twice:
  "uuid_a \<noteq> uuid_b
   \<and> current_turn_id (on_ptt_press uuid_a (run_started (init_client True))) = Some (new_turn_id uuid_a)
   \<and> current_turn_id
        (on_ptt_press uuid_b (on_ptt_release 2 (on_ptt_press uuid_a (run_started (init_client True)))))
       = Some (new_turn_id uuid_a)
   \<and> current_turn_id (toggle_mute uuid_a 1 (run_started (init_client False))) = Some (new_turn_id uuid_a)
   \<and> current_turn_id
        (toggle_mute uuid_b 3 (toggle_mute 0 2 (toggle_mute uuid_a 1 (run_started (init_client False)))))
       = Some (new_turn_id uuid_a)"
  using same_prefix uuids_differ by (simp add: eval_simps)

text \<open>
  Claim C5, as amended. Unmuting (toggle mode) and a key press with the key not held
  (push-to-talk) clear both queues, set the turn identifier to the first eight
  hexadecimal digits of the UUID drawn (the digits of its top 32 bits, never empty) and
  reset the count of chunks sent to 0; a key press with the key already held changes
  nothing.
\<close>

theorem entering_active_turn:
  "(muted_flag s \<longrightarrow>
      audio_queue_in (toggle_mute u now s) = [] \<and> video_queue_in (toggle_mute u now s) = []
    \<and> current_turn_id (toggle_mute u now s) = Some (new_turn_id u)
    \<and> audio_chunks_sent_this_turn (toggle_mute u now s) = 0
    \<and> \<not> muted_flag (toggle_mute u now s))
   \<and> (\<not> ptt_active s \<longrightarrow>
      audio_queue_in (on_ptt_press u s) = [] \<and> video_queue_in (on_ptt_press u s) = []
    \<and> current_turn_id (on_ptt_press u s) = Some (new_turn_id u)
    \<and> audio_chunks_sent_this_turn (on_ptt_press u s) = 0
    \<and> ptt_active (on_ptt_press u s))
   \<and> (ptt_active s \<longrightarrow> on_ptt_press u s = s)
   \<and> length (new_turn_id u) = 8
   \<and> new_turn_id u = map (\<lambda>i. hex_digit (unat (drop_bit (4 * i) u AND 15))) (rev [24..<32])"
  using new_turn_id_top_bits[of u] length_new_turn_id[of u]
  by (simp add: toggle_mute_def on_ptt_press_def clear_audio_queue_def clear_video_queue_def Let_def)

text \<open>
  Claim C5, instances: unmuting and a first key press from the state in which \<^verbatim>\<open>run\<close>
  starts, and a repeated key press.
\<close>

theorem entering_active_turn_witness:
  "muted_flag (run_started (init_client False))
   \<and> current_turn_id (toggle_mute uuid_a 1 (run_started (init_client False))) = Some (new_turn_id uuid_a)
   \<and> \<not> muted_flag (toggle_mute uuid_a 1 (run_started (init_client False)))
   \<and> \<not> ptt_active (run_started (init_client True))
   \<and> current_turn_id (on_ptt_press uuid_a (run_started (init_client True))) = Some (new_turn_id uuid_a)
   \<and> ptt_active (on_ptt_press uuid_a (run_started (init_client True)))
   \<and> on_ptt_press uuid_b (on_ptt_press uuid_a (run_started (init_client True)))
       = on_ptt_press uuid_a (run_started (init_client True))
   \<and> new_turn_id uuid_a = ''12345678''"
proof -
  have a: "muted_flag (run_started (init_client False))"
    by (simp add: run_started_def init_client_def)
  have b: "\<not> ptt_active (run_started (init_client True))"
    by (simp add: run_started_def init_client_def)
  have c: "ptt_active (on_ptt_press uuid_a (run_started (init_client True)))"
    using b entering_active_turn[of "run_started (init_client True)" uuid_a 1] by simp
  have d: "new_turn_id uuid_a = ''12345678''"
    unfolding uuid_a_def by code_simp
  show ?thesis
    using a b c d
      entering_active_turn[of "run_started (init_client False)" uuid_a 1]
      entering_active_turn[of "run_started (init_client True)" uuid_a 1]
      entering_active_turn[of "on_ptt_press uuid_a (run_started (init_client True))" uuid_b 1]
    by simp
qed

section \<open>The capture queues\<close>

lemma audio_drop_count_full_deposit:
  "d \<noteq> [] \<Longrightarrow> \<not> muted s \<Longrightarrow> length (audio_queue_in s) = 5 \<Longrightarrow>
   audio_drop_count (listen_audio_step now d s) = audio_drop_count s + 1"
  by (cases "audio_queue_in s")
     (auto simp: listen_audio_step_def queue_full_def put_nowait_def AUDIO_QUEUE_MAX_SIZE_def Let_def)

lemma audio_drop_count_room_deposit:
  "length (audio_queue_in s) < 5 \<Longrightarrow>
   audio_drop_count (listen_audio_step now d s) = audio_drop_count s"
  by (auto simp: listen_audio_step_def queue_full_def put_nowait_def AUDIO_QUEUE_MAX_SIZE_def Let_def)

lemma clock_set_back_events_toggle:
  "snd (run_events clock_set_back_events (0, run_started (init_client False))) =
     (run_started (init_client False))
       \<lparr>muted_flag := False, current_turn_id := Some (new_turn_id uuid_a),
        audio_queue_in := [\<lparr>data = chunk_a, timestamp = 5\<rparr>, \<lparr>data = chunk_b, timestamp = 4\<rparr>,
          \<lparr>data = chunk_c, timestamp = 3\<rparr>, \<lparr>data = chunk_a, timestamp = 2\<rparr>,
          \<lparr>data = chunk_b, timestamp = 1\<rparr>]\<rparr>"
  by (simp add: clock_set_back_events_def eval_simps)

text \<open>
  Claim C3 as stated fails on "oldest by timestamp": \<^verbatim>\<open>time.time()\<close> is the wall clock and may
  be set back. After five chunks stamped 5, 4, 3, 2 and 1, the deposit into the full queue
  evicts the chunk at the head, which has the greatest timestamp; the chunk with the
  least timestamp stays in the queue.
\<close>

theorem head_evicted_not_least_timestamp:
  "map timestamp (audio_queue_in (snd (run_events clock_set_back_events (0, run_started (init_client False)))))
     = [5, 4, 3, 2, 1]
   \<and> \<not> muted (snd (run_events clock_set_back_events (0, run_started (init_client False))))
   \<and> map timestamp
        (audio_queue_in
          (listen_audio_step 6 chunk_c
            (snd (run_events clock_set_back_events (0, run_started (init_client False))))))
       = [4, 3, 2, 1, 6]
   \<and> \<lparr>data = chunk_b, timestamp = 1\<rparr>
       \<in> set (audio_queue_in
                (listen_audio_step 6 chunk_c
                  (snd (run_events clock_set_back_events (0, run_started (init_client False))))))
   \<and> audio_drop_count
        (listen_audio_step 6 chunk_c
          (snd (run_events clock_set_back_events (0, run_started (init_client False)))))
       = 1"
  unfolding clock_set_back_events_toggle
  by (simp add: audio_queue_listen_audio_step audio_drop_count_full_deposit muted_def
      run_started_def init_client_def)

text \<open>
  Claim C3, as amended. In every state the coordinator reaches, the audio queue holds at
  most 5 chunks, and still does after the next deposit. A deposit into the full queue
  removes exactly the chunk at the head, which is the one deposited first, counts one
  drop and appends the new chunk; a deposit into a queue with room appends and counts
  nothing. When the clock readings that stamp the payloads do not decrease along the
  run, the head is the chunk with the least timestamp.
\<close>

theorem audio_queue_drop_oldest:
  assumes "s = snd (run_events evs (0, run_started (init_client m)))"
  shows "length (audio_queue_in s) \<le> 5
       \<and> length (audio_queue_in (listen_audio_step now d s)) \<le> 5
       \<and> (d \<noteq> [] \<and> \<not> muted s \<and> length (audio_queue_in s) = 5 \<longrightarrow>
            audio_queue_in (listen_audio_step now d s)
              = tl (audio_queue_in s) @ [\<lparr>data = d, timestamp = now\<rparr>]
          \<and> audio_drop_count (listen_audio_step now d s) = audio_drop_count s + 1)
       \<and> (d \<noteq> [] \<and> \<not> muted s \<and> length (audio_queue_in s) < 5 \<longrightarrow>
            audio_queue_in (listen_audio_step now d s)
              = audio_queue_in s @ [\<lparr>data = d, timestamp = now\<rparr>]
          \<and> audio_drop_count (listen_audio_step now d s) = audio_drop_count s)
       \<and> (sorted (concat (map stamp_of evs)) \<longrightarrow>
            (\<forall>x \<in> set (audio_queue_in s). timestamp (hd (audio_queue_in s)) \<le> timestamp x))"
proof -
  have "queues_bounded s"
    unfolding assms by (rule queues_bounded_run) (simp add: queues_bounded_init)
  then have len: "length (audio_queue_in s) \<le> 5"
    by (simp add: queues_bounded_def AUDIO_QUEUE_MAX_SIZE_def)
  have len': "length (audio_queue_in (listen_audio_step now d s)) \<le> 5"
    using len by (auto simp: audio_queue_listen_audio_step)
  have oldest: "timestamp (hd (audio_queue_in s)) \<le> timestamp x"
    if "sorted (concat (map stamp_of evs))" and "x \<in> set (audio_queue_in s)" for x
  proof -
    have "sorted (map timestamp (audio_queue_in s) @ [])"
      unfolding assms
      by (rule sorted_stamps_run) (simp add: that(1) run_started_def init_client_def)
    then show ?thesis using that(2) by (simp add: sorted_hd_least)
  qed
  show ?thesis
    using len len' oldest
    by (simp add: audio_queue_listen_audio_step audio_drop_count_full_deposit
        audio_drop_count_room_deposit)
qed

text \<open>
  Claim C3, instance: five chunks queued 64 ms apart during an open turn, then a sixth.
\<close>

theorem audio_queue_drop_oldest_witness:
  "length (audio_queue_in (snd (run_events backlog_events (0, run_started (init_client False))))) = 5
   \<and> \<not> muted (snd (run_events backlog_events (0, run_started (init_client False))))
   \<and> chunk_c \<noteq> []
   \<and> sorted (concat (map stamp_of backlog_events))
   \<and> audio_queue_in
        (listen_audio_step 9.384 chunk_c (snd (run_events backlog_events (0, run_started (init_client False)))))
       = [\<lparr>data = chunk_b, timestamp = 9.128\<rparr>, \<lparr>data = chunk_c, timestamp = 9.192\<rparr>,
          \<lparr>data = chunk_a, timestamp = 9.256\<rparr>, \<lparr>data = chunk_b, timestamp = 9.32\<rparr>,
          \<lparr>data = chunk_c, timestamp = 9.384\<rparr>]
   \<and> audio_drop_count
        (listen_audio_step 9.384 chunk_c (snd (run_events backlog_events (0, run_started (init_client False)))))
       = 1
   \<and> timestamp (hd (audio_queue_in (snd (run_events backlog_events (0, run_started (init_client False))))))
       = 9.064"
proof -
  let ?s = "snd (run_events backlog_events (0, run_started (init_client False)))"
  have a: "length (audio_queue_in ?s) = 5 \<and> \<not> muted ?s \<and> audio_drop_count ?s = 0
       \<and> tl (audio_queue_in ?s) = [\<lparr>data = chunk_b, timestamp = 9.128\<rparr>, \<lparr>data = chunk_c, timestamp = 9.192\<rparr>,
          \<lparr>data = chunk_a, timestamp = 9.256\<rparr>, \<lparr>data = chunk_b, timestamp = 9.32\<rparr>]
       \<and> timestamp (hd (audio_queue_in ?s)) = 9.064"
    unfolding backlog_events_toggle by (simp add: muted_def run_started_def init_client_def)
  have b: "sorted (concat (map stamp_of backlog_events))"
    by (simp add: backlog_events_def)
  show ?thesis
    using a b audio_queue_drop_oldest[OF refl, of backlog_events False "9.384" chunk_c]
    by simp
qed

lemma screen_drop_count_capture:
  "length (video_queue_in s) \<le> 1 \<Longrightarrow>
   screen_drop_count (snd (capture_screen_step now img (fc, s)))
     = (if video_queue_in s \<noteq> [] then screen_drop_count s + 1 else screen_drop_count s)"
  by (cases "video_queue_in s")
     (auto simp: capture_screen_step_def queue_full_def put_nowait_def SCREEN_QUEUE_SIZE_def Let_def)

text \<open>
  Claim C4. In every state the coordinator reaches, the video queue holds at most one
  frame; after a deposit it holds the deposited frame and nothing else, whatever the
  timestamp of the frame it held, and the screen drop counter has grown by one exactly
  when a frame was replaced.
\<close>

theorem video_queue_latest_only:
  assumes "st = run_events evs (0, run_started (init_client m))"
  shows "length (video_queue_in (snd st)) \<le> 1
       \<and> video_queue_in (snd (capture_screen_step now img st)) = [\<lparr>data = img, timestamp = now\<rparr>]
       \<and> (video_queue_in (snd st) \<noteq> [] \<longrightarrow>
            screen_drop_count (snd (capture_screen_step now img st)) = screen_drop_count (snd st) + 1)
       \<and> (video_queue_in (snd st) = [] \<longrightarrow>
            screen_drop_count (snd (capture_screen_step now img st)) = screen_drop_count (snd st))"
proof -
  have "queues_bounded (snd st)"
    unfolding assms by (rule queues_bounded_run) (simp add: queues_bounded_init)
  then have len: "length (video_queue_in (snd st)) \<le> 1"
    by (simp add: queues_bounded_def SCREEN_QUEUE_SIZE_def)
  obtain fc s where st: "st = (fc, s)" by (cases st)
  show ?thesis
    using len unfolding st
    by (simp add: video_queue_capture_screen_step screen_drop_count_capture)
qed

text \<open>
  Claim C4, instances: a second frame deposited on a first, and a first frame deposited
  into the empty queue.
\<close>

theorem video_queue_latest_only_witness:
  "video_queue_in (snd (run_events [ScreenGrab 9 frame_a] (0, run_started (init_client False))))
     = [\<lparr>data = frame_a, timestamp = 9\<rparr>]
   \<and> video_queue_in
        (snd (capture_screen_step 9.5 frame_b
               (run_events [ScreenGrab 9 frame_a] (0, run_started (init_client False)))))
       = [\<lparr>data = frame_b, timestamp = 9.5\<rparr>]
   \<and> screen_drop_count
        (snd (capture_screen_step 9.5 frame_b
               (run_events [ScreenGrab 9 frame_a] (0, run_started (init_client False)))))
       = 1
   \<and> video_queue_in (snd (run_events [] (0, run_started (init_client False)))) = []
   \<and> screen_drop_count
        (snd (capture_screen_step 9 frame_a (run_events [] (0, run_started (init_client False)))))
       = 0"
proof -
  have a: "video_queue_in (snd (run_events [ScreenGrab 9 frame_a] (0, run_started (init_client False))))
       = [\<lparr>data = frame_a, timestamp = 9\<rparr>]
     \<and> screen_drop_count (snd (run_events [ScreenGrab 9 frame_a] (0, run_started (init_client False)))) = 0"
    by (simp add: eval_simps)
  have b: "video_queue_in (snd (run_events [] (0, run_started (init_client False)))) = []
     \<and> screen_drop_count (snd (run_events [] (0, run_started (init_client False)))) = 0"
    by (simp add: run_started_def init_client_def)
  show ?thesis
    using a b
      video_queue_latest_only[OF refl, of "[ScreenGrab 9 frame_a]" False "9.5" frame_b]
      video_queue_latest_only[OF refl, of "[]" False 9 frame_a]
    by simp
qed

text \<open>
  Claim C10. A read from the microphone that finds the client muted changes nothing, and
  in every state the coordinator reaches, each chunk in the audio queue was read at a
  step that found the client not muted. The test is made when the read returns.
\<close>

theorem muted_audio_never_queued:
  "(muted s \<longrightarrow> listen_audio_step now d s = s)
   \<and> set (audio_queue_in (snd (run_events evs (0, run_started (init_client m)))))
       \<subseteq> set (unmuted_reads evs (0, run_started (init_client m)))"
proof -
  have "set (audio_queue_in (snd (run_events evs (0, run_started (init_client m)))))
       \<subseteq> set (audio_queue_in (snd (0::int, run_started (init_client m))))
          \<union> set (unmuted_reads evs (0, run_started (init_client m)))"
    by (rule audio_provenance_run)
  then show ?thesis
    by (simp add: listen_audio_step_def run_started_def init_client_def)
qed

text \<open>
  Claim C10, instance: a chunk read before the microphone is opened and one read after.
\<close>

theorem muted_audio_never_queued_witness:
  "muted (run_started (init_client False))
   \<and> listen_audio_step 8.9 chunk_c (run_started (init_client False)) = run_started (init_client False)
   \<and> audio_queue_in (snd (run_events muted_then_talk_events (0, run_started (init_client False))))
       = [\<lparr>data = chunk_a, timestamp = 9.064\<rparr>]
   \<and> unmuted_reads muted_then_talk_events (0, run_started (init_client False))
       = [\<lparr>data = chunk_a, timestamp = 9.064\<rparr>]"
proof -
  have a: "muted (run_started (init_client False))"
    by (simp add: muted_def run_started_def init_client_def)
  have b: "audio_queue_in (snd (run_events muted_then_talk_events (0, run_started (init_client False))))
       = [\<lparr>data = chunk_a, timestamp = 9.064\<rparr>]"
    by (simp add: muted_then_talk_events_def eval_simps)
  have c: "unmuted_reads muted_then_talk_events (0, run_started (init_client False))
       = [\<lparr>data = chunk_a, timestamp = 9.064\<rparr>]"
    by (simp add: muted_then_talk_events_def eval_simps)
  show ?thesis
    using a b c
      muted_audio_never_queued[of "run_started (init_client False)" "8.9" chunk_c
        muted_then_talk_events False]
    by simp
qed

section \<open>Adaptive frame rate\<close>

lemma fps_unchanged:
  "current_screen_fps (on_hotkey_press k u now s) = current_screen_fps s"
  "current_screen_fps (on_hotkey_release k now s) = current_screen_fps s"
  "current_screen_fps (listen_audio_step now d s) = current_screen_fps s"
  "current_screen_fps (send_to_api_step clk vnow s) = current_screen_fps s"
  "current_screen_fps (reset_session s) = current_screen_fps s"
  by (auto simp: on_hotkey_press_def on_hotkey_release_def request_shutdown_def toggle_mute_def
      on_ptt_press_def on_ptt_release_def request_turn_end_def clear_audio_queue_def
      clear_video_queue_def listen_audio_step_def put_nowait_def send_to_api_step_def
      reset_session_def Let_def split: option.splits)

lemma fps_capture_screen_step:
  "current_screen_fps (snd (capture_screen_step now img (fc, s))) =
     (if (fc + 1) mod 30 = 0 then
        (if avg_screen_ms (latency_stats s) > SCREEN_MAX_AGE_MS * 0.8
         then max SCREEN_FPS_MIN (current_screen_fps s - 1)
         else if avg_screen_ms (latency_stats s) < SCREEN_MAX_AGE_MS * 0.3
                 \<and> current_screen_fps s < SCREEN_FPS
         then min SCREEN_FPS (current_screen_fps s + 1)
         else current_screen_fps s)
      else current_screen_fps s)"
  by (auto simp: capture_screen_step_def put_nowait_def Let_def split: option.splits)

lemma fps_in_range_step: "fps_in_range (snd st) \<Longrightarrow> fps_in_range (snd (step e st))"
  by (cases st; cases e)
     (auto simp: fps_in_range_def fps_unchanged fps_capture_screen_step SCREEN_FPS_def SCREEN_FPS_MIN_def)

text \<open>
  Claim C6. The frame rate starts within \<open>[SCREEN_FPS_MIN, SCREEN_FPS] = [1, 2]\<close> and no
  run of events, from any state within the range and whatever its latency window holds,
  takes it out of the range.
\<close>

theorem adaptive_fps_stays_in_range:
  "SCREEN_FPS_MIN = 1 \<and> SCREEN_FPS = 2
   \<and> fps_in_range (init_client m)
   \<and> (fps_in_range (snd st) \<longrightarrow> fps_in_range (snd (run_events evs st)))"
proof -
  have "fps_in_range (snd (run_events evs st))" if "fps_in_range (snd st)"
    using that by (rule run_events_invariant[where P = "\<lambda>st. fps_in_range (snd st)"])
      (simp add: fps_in_range_step)
  then show ?thesis
    by (simp add: fps_in_range_def init_client_def SCREEN_FPS_def SCREEN_FPS_MIN_def)
qed

text \<open>
  Claim C6, instance: the thirtieth frame captured with a latency window of mean 400.
\<close>

theorem adaptive_fps_stays_in_range_witness:
  "fps_in_range (snd (29::int, at_threshold))
   \<and> fps_in_range (snd (run_events [ScreenGrab 9 frame_a] (29, at_threshold)))
   \<and> 1 \<le> current_screen_fps (snd (run_events [ScreenGrab 9 frame_a] (29, at_threshold)))
   \<and> current_screen_fps (snd (run_events [ScreenGrab 9 frame_a] (29, at_threshold))) \<le> 2"
proof -
  have a: "fps_in_range (snd (29::int, at_threshold))"
    by (simp add: fps_in_range_def at_threshold_def run_started_def init_client_def
        SCREEN_FPS_def SCREEN_FPS_MIN_def)
  have b: "fps_in_range (snd (run_events [ScreenGrab 9 frame_a] (29, at_threshold)))"
    using a adaptive_fps_stays_in_range[of False "(29, at_threshold)" "[ScreenGrab 9 frame_a]"]
    by blast
  then have c: "1 \<le> current_screen_fps (snd (run_events [ScreenGrab 9 frame_a] (29, at_threshold)))
      \<and> current_screen_fps (snd (run_events [ScreenGrab 9 frame_a] (29, at_threshold))) \<le> 2"
    by (simp only: fps_in_range_def SCREEN_FPS_def SCREEN_FPS_MIN_def)
  show ?thesis
    using a b c by blast
qed

lemma fst_capture_screen_step: "fst (capture_screen_step now img (fc, s)) = fc + 1"
  by (simp add: capture_screen_step_def Let_def)

text \<open>
  Claim C7 as stated fails at the boundary: with a window of mean 400 ms, which is 80% of
  the 500 ms budget, the thirtieth frame leaves the frame rate at 2. The window holds
  the ages of three frames sent half a second and two sent a quarter of a second after
  capture.
\<close>

theorem fps_kept_at_80_percent:
  "avg_screen_ms (latency_stats at_threshold) = 400
   \<and> avg_screen_ms (latency_stats at_threshold) \<ge> 0.8 * SCREEN_MAX_AGE_MS
   \<and> (29 + 1) mod 30 = (0::int)
   \<and> current_screen_fps at_threshold = 2
   \<and> current_screen_fps (snd (capture_screen_step 9 frame_a (29, at_threshold))) = 2"
  by (simp add: fps_capture_screen_step)
     (simp add: at_threshold_def avg_screen_ms_def run_started_def init_client_def
      SCREEN_MAX_AGE_MS_def SCREEN_FPS_def)

text \<open>
  Claim C7, as amended. Capturing a frame adds one to the frame count. The frame rate
  changes only when the new count is a multiple of 30: it becomes
  \<open>max SCREEN_FPS_MIN (fps - 1)\<close> when the mean screen latency is strictly above 80% of the
  budget, \<open>fps + 1\<close> when the mean is below 30% of the budget and the rate is below
  \<open>SCREEN_FPS\<close>, and stays as it is otherwise.
\<close>

theorem adaptive_fps_adjustment:
  "fst (capture_screen_step now img (fc, s)) = fc + 1
   \<and> ((fc + 1) mod 30 \<noteq> 0 \<longrightarrow>
        current_screen_fps (snd (capture_screen_step now img (fc, s))) = current_screen_fps s)
   \<and> ((fc + 1) mod 30 = 0 \<and> avg_screen_ms (latency_stats s) > 0.8 * SCREEN_MAX_AGE_MS \<longrightarrow>
        current_screen_fps (snd (capture_screen_step now img (fc, s)))
          = max SCREEN_FPS_MIN (current_screen_fps s - 1))
   \<and> ((fc + 1) mod 30 = 0 \<and> avg_screen_ms (latency_stats s) < 0.3 * SCREEN_MAX_AGE_MS
        \<and> current_screen_fps s < SCREEN_FPS \<longrightarrow>
        current_screen_fps (snd (capture_screen_step now img (fc, s))) = current_screen_fps s + 1)
   \<and> ((fc + 1) mod 30 = 0 \<and> avg_screen_ms (latency_stats s) < 0.3 * SCREEN_MAX_AGE_MS
        \<and> SCREEN_FPS \<le> current_screen_fps s \<longrightarrow>
        current_screen_fps (snd (capture_screen_step now img (fc, s))) = current_screen_fps s)
   \<and> ((fc + 1) mod 30 = 0 \<and> 0.3 * SCREEN_MAX_AGE_MS \<le> avg_screen_ms (latency_stats s)
        \<and> avg_screen_ms (latency_stats s) \<le> 0.8 * SCREEN_MAX_AGE_MS \<longrightarrow>
        current_screen_fps (snd (capture_screen_step now img (fc, s))) = current_screen_fps s)"
  by (simp add: fps_capture_screen_step fst_capture_screen_step SCREEN_MAX_AGE_MS_def
      SCREEN_FPS_def)

lemma example_means:
  "avg_screen_ms (latency_stats at_threshold) = 400"
  "avg_screen_ms (latency_stats slow_screen) = 475"
  "avg_screen_ms (latency_stats recovered_screen) = 75"
  "avg_screen_ms (latency_stats (run_started (init_client False))) = 0"
  by (simp_all add: at_threshold_def slow_screen_def recovered_screen_def avg_screen_ms_def
      run_started_def init_client_def)

lemma example_fps:
  "current_screen_fps at_threshold = 2"
  "current_screen_fps slow_screen = 2"
  "current_screen_fps recovered_screen = 1"
  "current_screen_fps (run_started (init_client False)) = 2"
  by (simp_all add: at_threshold_def slow_screen_def recovered_screen_def
      run_started_def init_client_def SCREEN_FPS_def)

text \<open>
  Claim C7, instances: a frame that is not a thirtieth one; thirtieth frames with a mean
  latency of 475 ms (rate 2 to 1), of 75 ms at rate 1 (to 2), of 0 ms at rate 2 (kept) and
  of 400 ms (kept).
\<close>

theorem adaptive_fps_adjustment_witness:
  "current_screen_fps (snd (capture_screen_step 9 frame_a (0, slow_screen))) = 2
   \<and> current_screen_fps (snd (capture_screen_step 9 frame_a (29, slow_screen))) = 1
   \<and> current_screen_fps (snd (capture_screen_step 9 frame_a (59, recovered_screen))) = 2
   \<and> current_screen_fps (snd (capture_screen_step 9 frame_a (29, run_started (init_client False)))) = 2
   \<and> current_screen_fps (snd (capture_screen_step 9 frame_a (29, at_threshold))) = 2"
proof -
  have c: "SCREEN_MAX_AGE_MS = 500" "SCREEN_FPS = 2" "SCREEN_FPS_MIN = 1"
    by (simp_all add: SCREEN_MAX_AGE_MS_def SCREEN_FPS_def SCREEN_FPS_MIN_def)
  show ?thesis
    using adaptive_fps_adjustment[of 9 frame_a 0 slow_screen]
      adaptive_fps_adjustment[of 9 frame_a 29 slow_screen]
      adaptive_fps_adjustment[of 9 frame_a 59 recovered_screen]
      adaptive_fps_adjustment[of 9 frame_a 29 "run_started (init_client False)"]
      adaptive_fps_adjustment[of 9 frame_a 29 at_threshold]
    by (simp add: example_means example_fps c)
qed

section \<open>Stall detection\<close>

lemma run_loop_session_raised:
  "rc < max_reconnects \<Longrightarrow>
   run_loop rc (SessionRaised e # script) =
     (Connecting (rc + 1) # ResetState # StartTasks # CancelTasks # fst (run_loop 0 script),
      snd (run_loop 0 script))"
  by (simp add: case_prod_unfold Let_def)

text \<open>
  Claim C9. A check of the stall detector does nothing unless a turn-end time is set and a
  turn identifier is known. Otherwise, with the wait at most 15 s it does nothing; above
  15 s and at most 30 s it logs one warning and leaves the client as it is; above 30 s it
  raises the stall exception (after the warning and the error records). An exception
  raised by a task of the session makes \<^verbatim>\<open>run\<close> cancel the tasks of that connection and go
  on to the next connection attempt with the reconnect count at 0.
\<close>

theorem stall_detector_thresholds:
  "(\<not> (last_turn_end_time s > 0 \<and> current_turn_id s \<noteq> None) \<longrightarrow>
      stall_detector_step now s = ([], Inr s))
   \<and> (last_turn_end_time s > 0 \<and> current_turn_id s \<noteq> None \<longrightarrow>
        (now - last_turn_end_time s \<le> 15 \<longrightarrow> stall_detector_step now s = ([], Inr s))
      \<and> (15 < now - last_turn_end_time s \<and> now - last_turn_end_time s \<le> 30 \<longrightarrow>
           stall_detector_step now s = ([LogWarning], Inr s))
      \<and> (30 < now - last_turn_end_time s \<longrightarrow>
           stall_detector_step now s
             = ([LogWarning, LogError, LogInfo], Inl (SessionStalled (now - last_turn_end_time s)))))
   \<and> (rc < max_reconnects \<longrightarrow>
        run_loop rc (SessionRaised (SessionStalled w) # script) =
          (Connecting (rc + 1) # ResetState # StartTasks # CancelTasks # fst (run_loop 0 script),
           snd (run_loop 0 script)))"
  using run_loop_session_raised[of rc "SessionStalled w" script]
  by (simp add: stall_detector_step_def STALL_TIMEOUT_S_def Let_def)

text \<open>
  Claim C9, instances: no turn-end outstanding; then a turn ended at clock reading 100,
  checked at 110, 116 and 131.
\<close>

theorem stall_detector_thresholds_witness:
  "stall_detector_step 110 (run_started (init_client False)) = ([], Inr (run_started (init_client False)))
   \<and> stall_detector_step 110 awaiting_reply = ([], Inr awaiting_reply)
   \<and> stall_detector_step 116 awaiting_reply = ([LogWarning], Inr awaiting_reply)
   \<and> stall_detector_step 131 awaiting_reply
       = ([LogWarning, LogError, LogInfo], Inl (SessionStalled 31))
   \<and> run_loop 0 [SessionRaised (SessionStalled 31)]
       = ([Connecting 1, ResetState, StartTasks, CancelTasks], StillLooping 0)"
proof -
  have a: "last_turn_end_time awaiting_reply = 100" "current_turn_id awaiting_reply \<noteq> None"
    "last_turn_end_time (run_started (init_client False)) = 0"
    by (simp_all add: awaiting_reply_def run_started_def init_client_def)
  have b: "(0::int) < max_reconnects" by (simp add: max_reconnects_def)
  have c: "run_loop 0 [] = ([], StillLooping 0)" by simp
  show ?thesis
    using stall_detector_thresholds[of "run_started (init_client False)" 110 0 31 "[]"]
      stall_detector_thresholds[of awaiting_reply 110 0 31 "[]"]
      stall_detector_thresholds[of awaiting_reply 116 0 31 "[]"]
      stall_detector_thresholds[of awaiting_reply 131 0 31 "[]"]
    by (simp only: a b c) simp
qed

section \<open>Reconnect backoff\<close>

lemma run_loop_connect_failed:
  "run_loop rc (ConnectFailed # script) =
     (if rc < max_reconnects then
        (if rc + 1 < max_reconnects
         then (Connecting (rc + 1) # Sleep (min 30 (2 ^ nat (rc + 1))) # fst (run_loop (rc + 1) script),
               snd (run_loop (rc + 1) script))
         else ([Connecting (rc + 1), GiveUp], LoopLeft))
      else ([], LoopLeft))"
  by (simp add: case_prod_unfold Let_def)

lemma failures_0: "run_loop 0 [] = ([], StillLooping 0)"
  by simp

lemma failures_4_more:
  "run_loop 4 (ConnectFailed # script) = ([Connecting 5, GiveUp], LoopLeft)"
  by (simp only: run_loop_connect_failed max_reconnects_def) simp

lemma failures_3_more:
  "run_loop 3 (ConnectFailed # script)
     = (Connecting 4 # Sleep 16 # fst (run_loop 4 script), snd (run_loop 4 script))"
  by (simp only: run_loop_connect_failed max_reconnects_def) (simp add: eval_nat_numeral)

lemma failures_2_more:
  "run_loop 2 (ConnectFailed # script)
     = (Connecting 3 # Sleep 8 # fst (run_loop 3 script), snd (run_loop 3 script))"
  by (simp only: run_loop_connect_failed max_reconnects_def) (simp add: eval_nat_numeral)

lemma failures_1_more:
  "run_loop 1 (ConnectFailed # script)
     = (Connecting 2 # Sleep 4 # fst (run_loop 2 script), snd (run_loop 2 script))"
  by (simp only: run_loop_connect_failed max_reconnects_def) (simp add: eval_nat_numeral)

lemma failures_0_more:
  "run_loop 0 (ConnectFailed # script)
     = (Connecting 1 # Sleep 2 # fst (run_loop 1 script), snd (run_loop 1 script))"
  by (simp only: run_loop_connect_failed max_reconnects_def) simp

lemmas failures_more =
  failures_0 failures_0_more failures_1_more failures_2_more failures_3_more failures_4_more

lemma five_failures:
  "run_loop 0 (ConnectFailed # ConnectFailed # ConnectFailed # ConnectFailed # ConnectFailed # script)
     = ([Connecting 1, Sleep 2, Connecting 2, Sleep 4, Connecting 3, Sleep 8, Connecting 4, Sleep 16,
         Connecting 5, GiveUp], LoopLeft)"
  by (simp only: failures_more fst_conv snd_conv)

lemma few_failures:
  "run_loop 0 [ConnectFailed] = ([Connecting 1, Sleep 2], StillLooping 1)"
  "run_loop 0 [ConnectFailed, ConnectFailed]
     = ([Connecting 1, Sleep 2, Connecting 2, Sleep 4], StillLooping 2)"
  "run_loop 0 [ConnectFailed, ConnectFailed, ConnectFailed]
     = ([Connecting 1, Sleep 2, Connecting 2, Sleep 4, Connecting 3, Sleep 8], StillLooping 3)"
  "run_loop 0 [ConnectFailed, ConnectFailed, ConnectFailed, ConnectFailed]
     = ([Connecting 1, Sleep 2, Connecting 2, Sleep 4, Connecting 3, Sleep 8, Connecting 4, Sleep 16],
        StillLooping 4)"
  by (simp_all only: failures_more run_loop.simps(1) fst_conv snd_conv)

lemma replicate_small:
  "replicate 0 x = []" "replicate 1 x = [x]" "replicate 2 x = [x, x]" "replicate 3 x = [x, x, x]"
  "replicate 4 x = [x, x, x, x]"
  by (simp_all add: numeral_eq_Suc)

lemma backoff_values:
  "map (\<lambda>k. min 30 (2 ^ k)) [1..<Suc 0] = ([] :: int list)"
  "map (\<lambda>k. min 30 (2 ^ k)) [1..<Suc 1] = [2 :: int]"
  "map (\<lambda>k. min 30 (2 ^ k)) [1..<Suc 2] = [2, 4 :: int]"
  "map (\<lambda>k. min 30 (2 ^ k)) [1..<Suc 3] = [2, 4, 8 :: int]"
  "map (\<lambda>k. min 30 (2 ^ k)) [1..<Suc 4] = [2, 4, 8, 16 :: int]"
  by (simp_all add: upt_conv_Cons)

lemma backoff_case_0:
  "[w. Sleep w \<leftarrow> fst (run_loop 0 (replicate 0 ConnectFailed))] = map (\<lambda>k. min 30 (2 ^ k)) [1..<Suc 0]
    \<and> [w. Sleep w \<leftarrow> fst (run_loop 0 (replicate 0 ConnectFailed))] = take 0 [2, 4, 8, 16]
    \<and> snd (run_loop 0 (replicate 0 ConnectFailed)) = StillLooping (int 0)"
  unfolding replicate_small backoff_values failures_0 by simp

lemma backoff_case_1:
  "[w. Sleep w \<leftarrow> fst (run_loop 0 (replicate 1 ConnectFailed))] = map (\<lambda>k. min 30 (2 ^ k)) [1..<Suc 1]
    \<and> [w. Sleep w \<leftarrow> fst (run_loop 0 (replicate 1 ConnectFailed))] = take 1 [2, 4, 8, 16]
    \<and> snd (run_loop 0 (replicate 1 ConnectFailed)) = StillLooping (int 1)"
  unfolding replicate_small backoff_values few_failures by simp

lemma backoff_case_2:
  "[w. Sleep w \<leftarrow> fst (run_loop 0 (replicate 2 ConnectFailed))] = map (\<lambda>k. min 30 (2 ^ k)) [1..<Suc 2]
    \<and> [w. Sleep w \<leftarrow> fst (run_loop 0 (replicate 2 ConnectFailed))] = take 2 [2, 4, 8, 16]
    \<and> snd (run_loop 0 (replicate 2 ConnectFailed)) = StillLooping (int 2)"
  unfolding replicate_small backoff_values few_failures by simp

lemma backoff_case_3:
  "[w. Sleep w \<leftarrow> fst (run_loop 0 (replicate 3 ConnectFailed))] = map (\<lambda>k. min 30 (2 ^ k)) [1..<Suc 3]
    \<and> [w. Sleep w \<leftarrow> fst (run_loop 0 (replicate 3 ConnectFailed))] = take 3 [2, 4, 8, 16]
    \<and> snd (run_loop 0 (replicate 3 ConnectFailed)) = StillLooping (int 3)"
  unfolding replicate_small backoff_values few_failures by simp

lemma backoff_case_4:
  "[w. Sleep w \<leftarrow> fst (run_loop 0 (replicate 4 ConnectFailed))] = map (\<lambda>k. min 30 (2 ^ k)) [1..<Suc 4]
    \<and> [w. Sleep w \<leftarrow> fst (run_loop 0 (replicate 4 ConnectFailed))] = take 4 [2, 4, 8, 16]
    \<and> snd (run_loop 0 (replicate 4 ConnectFailed)) = StillLooping (int 4)"
  unfolding replicate_small backoff_values few_failures by simp

text \<open>
  Claim C2 as stated fails: over six connect-time failures in a row the supervisor sleeps
  2, 4, 8 and 16 seconds and gives up at the fifth failure; it never sleeps 30 seconds
  and never starts a sixth attempt.
\<close>

theorem fifth_failure_gives_up:
  "run_loop 0 (replicate 6 ConnectFailed)
     = ([Connecting 1, Sleep 2, Connecting 2, Sleep 4, Connecting 3, Sleep 8, Connecting 4, Sleep 16,
         Connecting 5, GiveUp], LoopLeft)
   \<and> Sleep 30 \<notin> set (fst (run_loop 0 (replicate 6 ConnectFailed)))
   \<and> Connecting 6 \<notin> set (fst (run_loop 0 (replicate 6 ConnectFailed)))"
proof -
  have "replicate 6 ConnectFailed
      = ConnectFailed # ConnectFailed # ConnectFailed # ConnectFailed # ConnectFailed # [ConnectFailed]"
    by (simp add: numeral_eq_Suc)
  then show ?thesis by (simp only: five_failures) simp
qed

text \<open>
  Claim C2, as amended. After the \<open>k\<close>-th connect-time failure in a row, for \<open>k\<close> from 1
  to 4, the supervisor sleeps \<open>min 30 (2 ^ k)\<close> seconds, that is 2, 4, 8 and 16, and tries
  again; the fifth failure in a row ends the loop of \<^verbatim>\<open>run\<close> for good, whatever would have
  followed.
\<close>

theorem connect_failure_backoff:
  "(n \<le> 4 \<longrightarrow>
      [w. Sleep w \<leftarrow> fst (run_loop 0 (replicate n ConnectFailed))] = map (\<lambda>k. min 30 (2 ^ k)) [1..<Suc n]
    \<and> [w. Sleep w \<leftarrow> fst (run_loop 0 (replicate n ConnectFailed))] = take n [2, 4, 8, 16]
    \<and> snd (run_loop 0 (replicate n ConnectFailed)) = StillLooping (int n))
   \<and> (5 \<le> n \<longrightarrow>
      run_loop 0 (replicate n ConnectFailed @ script)
        = ([Connecting 1, Sleep 2, Connecting 2, Sleep 4, Connecting 3, Sleep 8, Connecting 4, Sleep 16,
            Connecting 5, GiveUp], LoopLeft))"
proof -
  have small: "[w. Sleep w \<leftarrow> fst (run_loop 0 (replicate n ConnectFailed))] = map (\<lambda>k. min 30 (2 ^ k)) [1..<Suc n]
    \<and> [w. Sleep w \<leftarrow> fst (run_loop 0 (replicate n ConnectFailed))] = take n [2, 4, 8, 16]
    \<and> snd (run_loop 0 (replicate n ConnectFailed)) = StillLooping (int n)" if "n \<le> 4"
  proof -
    from that have "n = 0 \<or> n = 1 \<or> n = 2 \<or> n = 3 \<or> n = 4" by linarith
    then show ?thesis
      by (elim disjE; hypsubst)
        (rule backoff_case_0, rule backoff_case_1, rule backoff_case_2, rule backoff_case_3,
         rule backoff_case_4)
  qed
  have big: "run_loop 0 (replicate n ConnectFailed @ script)
        = ([Connecting 1, Sleep 2, Connecting 2, Sleep 4, Connecting 3, Sleep 8, Connecting 4, Sleep 16,
            Connecting 5, GiveUp], LoopLeft)" if "5 \<le> n"
  proof -
    have five: "replicate 5 ConnectFailed
        = [ConnectFailed, ConnectFailed, ConnectFailed, ConnectFailed, ConnectFailed]"
      by (simp add: numeral_eq_Suc)
    from that have "n = 5 + (n - 5)" by linarith
    then have "replicate n ConnectFailed = replicate 5 ConnectFailed @ replicate (n - 5) ConnectFailed"
      by (metis replicate_add)
    then have "replicate n ConnectFailed @ script
        = ConnectFailed # ConnectFailed # ConnectFailed # ConnectFailed # ConnectFailed
          # (replicate (n - 5) ConnectFailed @ script)"
      by (simp only: five append.simps append_assoc)
    then show ?thesis by (simp only: five_failures)
  qed
  show ?thesis
  proof (rule conjI; rule impI)
    assume "n \<le> 4"
    then show "[w. Sleep w \<leftarrow> fst (run_loop 0 (replicate n ConnectFailed))] = map (\<lambda>k. min 30 (2 ^ k)) [1..<Suc n]
      \<and> [w. Sleep w \<leftarrow> fst (run_loop 0 (replicate n ConnectFailed))] = take n [2, 4, 8, 16]
      \<and> snd (run_loop 0 (replicate n ConnectFailed)) = StillLooping (int n)"
      by (rule small)
  next
    assume "5 \<le> n"
    then show "run_loop 0 (replicate n ConnectFailed @ script)
        = ([Connecting 1, Sleep 2, Connecting 2, Sleep 4, Connecting 3, Sleep 8, Connecting 4, Sleep 16,
            Connecting 5, GiveUp], LoopLeft)"
      by (rule big)
  qed
qed

text \<open>
  Claim C2, instances: three failures in a row, and five followed by a pass that is never
  made.
\<close>

theorem connect_failure_backoff_witness:
  "(3::nat) \<le> 4
   \<and> [w. Sleep w \<leftarrow> fst (run_loop 0 (replicate 3 ConnectFailed))] = [2, 4, 8]
   \<and> snd (run_loop 0 (replicate 3 ConnectFailed)) = StillLooping 3
   \<and> (5::nat) \<le> 5
   \<and> run_loop 0 (replicate 5 ConnectFailed @ [SessionReturned])
        = ([Connecting 1, Sleep 2, Connecting 2, Sleep 4, Connecting 3, Sleep 8, Connecting 4, Sleep 16,
            Connecting 5, GiveUp], LoopLeft)"
proof -
  have a: "(3::nat) \<le> 4" and a': "(5::nat) \<le> 5" by simp_all
  have b: "take 3 [2, 4, 8, 16 :: int] = [2, 4, 8]" "int 3 = 3" by simp_all
  note t3 = connect_failure_backoff[of 3 "[]", THEN conjunct1, THEN mp, OF a, THEN conjunct2,
      unfolded b]
  note t5 = connect_failure_backoff[of 5 "[SessionReturned]", THEN conjunct2, THEN mp, OF a']
  show ?thesis
    using a a' t3 t5 by (intro conjI) (erule conjunct1 conjunct2 | assumption)+
qed

end
